theory Spec2Isabelle
  imports Complex_Main
begin

section \<open>Errors and results\<close>

text \<open>
  The network of \<^verbatim>\<open>planners/mind/networks/network.py\<close> is embedded at two levels.
  The \<^emph>\<open>shape level\<close> runs every \<^verbatim>\<open>forward\<close> on tensor shapes: each tensor is the list
  of its dimension sizes and each operation either returns the shape of its result or
  the exception it raises. The \<^emph>\<open>value level\<close> (further down) runs the numerical
  kernels of the decoder and of the fusion layer on nested lists of reals.
\<close>

text \<open>
  \<open>ShapeError\<close> stands for the exception an operation raises when the shapes of its
  arguments do not fit (a \<^verbatim>\<open>RuntimeError\<close> for most of them); the others are the Python
  exceptions of the same name.
\<close>

datatype error =
  ShapeError | IndexError | KeyError | AttributeError | NotImplementedError
  | AssertionError | ValueError | UnboundLocalError

type_synonym shape = "nat list"

definition bnd :: "error + 'a \<Rightarrow> ('a \<Rightarrow> error + 'b) \<Rightarrow> error + 'b" where
  "bnd m f = (case m of Inl e \<Rightarrow> Inl e | Inr x \<Rightarrow> f x)"

section \<open>Shapes of the tensor operations used by the network\<close>

text \<open>\<^verbatim>\<open>nn.Linear(n_in, n_out)\<close>: the last dimension must be \<^verbatim>\<open>n_in\<close>.\<close>

definition Linear :: "nat \<Rightarrow> nat \<Rightarrow> shape \<Rightarrow> error + shape" where
  "Linear n_in n_out s =
     (if s \<noteq> [] \<and> last s = n_in then Inr (butlast s @ [n_out]) else Inl ShapeError)"

text \<open>\<^verbatim>\<open>nn.LayerNorm(d)\<close>: the last dimension must be \<^verbatim>\<open>d\<close>; the shape is kept.\<close>

definition LayerNorm :: "nat \<Rightarrow> shape \<Rightarrow> error + shape" where
  "LayerNorm d s = (if s \<noteq> [] \<and> last s = d then Inr s else Inl ShapeError)"

text \<open>\<^verbatim>\<open>nn.ReLU(inplace=True)\<close> and \<^verbatim>\<open>torch.exp\<close> keep the shape.\<close>

definition ReLU :: "shape \<Rightarrow> error + shape" where
  "ReLU s = Inr s"

text \<open>The recurring block \<^verbatim>\<open>Linear, LayerNorm, ReLU\<close> of an \<^verbatim>\<open>nn.Sequential\<close>.\<close>

definition lin_norm_relu :: "nat \<Rightarrow> nat \<Rightarrow> shape \<Rightarrow> error + shape" where
  "lin_norm_relu n_in n_out s = bnd (bnd (Linear n_in n_out s) (LayerNorm n_out)) ReLU"

text \<open>\<^verbatim>\<open>t.permute(dims)\<close> with non-negative \<^verbatim>\<open>dims\<close>: a permutation of the axes.\<close>

definition permute :: "nat list \<Rightarrow> shape \<Rightarrow> error + shape" where
  "permute dims s =
     (if sort dims = [0..<length s] then Inr (map (\<lambda>d. s ! d) dims) else Inl ShapeError)"

text \<open>\<^verbatim>\<open>F.adaptive_max_pool1d(t, 1)\<close>: input \<^verbatim>\<open>(N, C, L)\<close> or \<^verbatim>\<open>(C, L)\<close> with non-empty
  non-batch dimensions; the last dimension becomes 1.\<close>

definition adaptive_max_pool1d_1 :: "shape \<Rightarrow> error + shape" where
  "adaptive_max_pool1d_1 s =
     (if (length s = 3 \<or> length s = 2) \<and> 0 < last s \<and> 0 < last (butlast s)
      then Inr (butlast s @ [1]) else Inl ShapeError)"

text \<open>\<^verbatim>\<open>t.repeat(reps)\<close>: at least as many repeats as dimensions; missing leading
  dimensions count as 1.\<close>

definition repeat :: "nat list \<Rightarrow> shape \<Rightarrow> error + shape" where
  "repeat reps s =
     (if length s \<le> length reps
      then Inr (map2 (*) reps (replicate (length reps - length s) 1 @ s))
      else Inl ShapeError)"

text \<open>A possibly negative axis \<^verbatim>\<open>dim\<close> of a tensor of rank \<^verbatim>\<open>r\<close>.\<close>

definition axis :: "int \<Rightarrow> nat \<Rightarrow> error + nat" where
  "axis d r =
     (if 0 \<le> d \<and> d < int r then Inr (nat d)
      else if - int r \<le> d \<and> d < 0 then Inr (nat (d + int r))
      else Inl IndexError)"

text \<open>\<^verbatim>\<open>torch.cat(ts, dim)\<close>: the list is not empty; tensors of shape \<^verbatim>\<open>(0,)\<close> are
  skipped; the others have one rank and agree outside \<^verbatim>\<open>dim\<close>, where sizes add up.\<close>

definition cat :: "shape list \<Rightarrow> int \<Rightarrow> error + shape" where
  "cat ts d =
     (if ts = [] then Inl ShapeError
      else case filter (\<lambda>s. s \<noteq> [0]) ts of
        [] \<Rightarrow> Inr [0]
      | s # rest \<Rightarrow>
          bnd (axis d (length s)) (\<lambda>k.
            if list_all (\<lambda>u. length u = length s \<and> u[k := 0] = s[k := 0]) rest
            then Inr (s[k := sum_list (map (\<lambda>u. u ! k) (s # rest))])
            else Inl ShapeError))"

text \<open>\<^verbatim>\<open>t.squeeze()\<close> drops every dimension of size 1.\<close>

definition squeeze :: "shape \<Rightarrow> shape" where
  "squeeze s = filter (\<lambda>d. d \<noteq> 1) s"

text \<open>\<^verbatim>\<open>t.unsqueeze(0)\<close> and \<^verbatim>\<open>t.unsqueeze(1)\<close>.\<close>

definition unsqueeze0 :: "shape \<Rightarrow> shape" where
  "unsqueeze0 s = 1 # s"

definition unsqueeze1 :: "shape \<Rightarrow> error + shape" where
  "unsqueeze1 s = (case s of [] \<Rightarrow> Inl IndexError | d # ds \<Rightarrow> Inr (d # 1 # ds))"

text \<open>Broadcasting of two shapes, aligned at the last dimension.\<close>

fun broadcast_rev :: "shape \<Rightarrow> shape \<Rightarrow> error + shape" where
  "broadcast_rev [] ys = Inr ys"
| "broadcast_rev xs [] = Inr xs"
| "broadcast_rev (x # xs) (y # ys) =
     (if x = y \<or> y = 1 then bnd (broadcast_rev xs ys) (\<lambda>r. Inr (x # r))
      else if x = 1 then bnd (broadcast_rev xs ys) (\<lambda>r. Inr (y # r))
      else Inl ShapeError)"

definition broadcast :: "shape \<Rightarrow> shape \<Rightarrow> error + shape" where
  "broadcast a b = bnd (broadcast_rev (rev a) (rev b)) (\<lambda>r. Inr (rev r))"

text \<open>\<^verbatim>\<open>a + b\<close> on tensors.\<close>

definition add :: "shape \<Rightarrow> shape \<Rightarrow> error + shape" where
  "add a b = broadcast a b"

text \<open>The in-place sum \<^verbatim>\<open>a += b\<close>: the broadcast of the two shapes must be the shape
  of \<^verbatim>\<open>a\<close>, which is kept.\<close>

definition iadd :: "shape \<Rightarrow> shape \<Rightarrow> error + shape" where
  "iadd a b = bnd (broadcast a b) (\<lambda>r. if r = a then Inr a else Inl ShapeError)"

text \<open>The indexed assignment \<^verbatim>\<open>a[...] = b\<close>, where \<^verbatim>\<open>dst\<close> is the shape of the slice
  \<^verbatim>\<open>a[...]\<close>: the leading axes of size 1 of \<^verbatim>\<open>b\<close> are dropped, and what is left must
  expand to \<^verbatim>\<open>dst\<close>.\<close>

definition setitem :: "shape \<Rightarrow> shape \<Rightarrow> error + shape" where
  "setitem dst src =
     bnd (broadcast dst (dropWhile (\<lambda>d. d = 1) src))
       (\<lambda>r. if r = dst then Inr dst else Inl ShapeError)"

text \<open>\<^verbatim>\<open>t[i]\<close> with an integer \<^verbatim>\<open>i\<close> (negative indices count from the end).\<close>

definition index_int :: "shape \<Rightarrow> int \<Rightarrow> error + shape" where
  "index_int s i =
     (case s of [] \<Rightarrow> Inl IndexError
      | n # ds \<Rightarrow> if - int n \<le> i \<and> i < int n then Inr ds else Inl IndexError)"

text \<open>\<^verbatim>\<open>t[idcs]\<close> with a one-dimensional index tensor.\<close>

definition index_tensor :: "shape \<Rightarrow> int list \<Rightarrow> error + shape" where
  "index_tensor s idcs =
     (case s of [] \<Rightarrow> Inl IndexError
      | n # ds \<Rightarrow>
          if list_all (\<lambda>i. - int n \<le> i \<and> i < int n) idcs then Inr (length idcs # ds)
          else Inl IndexError)"

text \<open>\<^verbatim>\<open>torch.zeros_like(t)\<close>.\<close>

definition zeros_like :: "shape \<Rightarrow> shape" where
  "zeros_like s = s"

text \<open>\<^verbatim>\<open>t.shape[i]\<close>.\<close>

definition shape_at :: "shape \<Rightarrow> nat \<Rightarrow> error + nat" where
  "shape_at s i = (if i < length s then Inr (s ! i) else Inl IndexError)"

text \<open>\<^verbatim>\<open>t.view(dims)\<close> where \<^verbatim>\<open>dims\<close> holds at most one \<^verbatim>\<open>-1\<close> (here \<open>None\<close>): the
  number of elements is kept, and the free dimension is inferred unless the known ones
  multiply to 0.\<close>

definition numel :: "shape \<Rightarrow> nat" where
  "numel s = prod_list s"

definition view :: "nat option list \<Rightarrow> shape \<Rightarrow> error + shape" where
  "view dims s =
     (let known = prod_list (map (\<lambda>d. case d of None \<Rightarrow> 1 | Some k \<Rightarrow> k) dims);
          free = length (filter (\<lambda>d. d = None) dims)
      in if free = 0 then
           (if known = numel s then Inr (map the dims) else Inl ShapeError)
         else if free = 1 \<and> 0 < known \<and> numel s mod known = 0 then
           Inr (map (\<lambda>d. case d of None \<Rightarrow> numel s div known | Some k \<Rightarrow> k) dims)
         else Inl ShapeError)"

section \<open>LaneNet\<close>

record PointAggregateBlock =
  pab_hidden_size :: nat
  aggre_out :: bool

text \<open>\<^verbatim>\<open>PointAggregateBlock.fc1\<close> and \<^verbatim>\<open>fc2\<close>.\<close>

definition pab_fc1 :: "PointAggregateBlock \<Rightarrow> shape \<Rightarrow> error + shape" where
  "pab_fc1 b s =
     bnd (lin_norm_relu (pab_hidden_size b) (pab_hidden_size b) s)
       (lin_norm_relu (pab_hidden_size b) (pab_hidden_size b))"

definition pab_fc2 :: "PointAggregateBlock \<Rightarrow> shape \<Rightarrow> error + shape" where
  "pab_fc2 b s =
     bnd (lin_norm_relu (pab_hidden_size b * 2) (pab_hidden_size b) s)
       (lin_norm_relu (pab_hidden_size b) (pab_hidden_size b))"

definition global_maxpool_aggre :: "shape \<Rightarrow> error + shape" where
  "global_maxpool_aggre feat =
     bnd (bnd (permute [0, 2, 1] feat) adaptive_max_pool1d_1) (permute [0, 2, 1])"

definition PointAggregateBlock_forward :: "PointAggregateBlock \<Rightarrow> shape \<Rightarrow> error + shape" where
  "PointAggregateBlock_forward b x_inp =
     bnd (pab_fc1 b x_inp) (\<lambda>x.
     bnd (global_maxpool_aggre x) (\<lambda>x_aggre.
     bnd (shape_at x 1) (\<lambda>p.
     bnd (repeat [1, p, 1] x_aggre) (\<lambda>rep.
     bnd (cat [x, rep] (- 1)) (\<lambda>x_aggre.
     bnd (pab_fc2 b x_aggre) (\<lambda>y.
     bnd (add x_inp y) (\<lambda>z.
     bnd (LayerNorm (pab_hidden_size b) z) (\<lambda>out.
       if aggre_out b then bnd (global_maxpool_aggre out) (\<lambda>r. Inr (squeeze r))
       else Inr out))))))))"

record LaneNet =
  ln_in_size :: nat
  ln_hidden_size :: nat

definition LaneNet_aggre1 :: "LaneNet \<Rightarrow> PointAggregateBlock" where
  "LaneNet_aggre1 n = \<lparr>pab_hidden_size = ln_hidden_size n, aggre_out = False\<rparr>"

definition LaneNet_aggre2 :: "LaneNet \<Rightarrow> PointAggregateBlock" where
  "LaneNet_aggre2 n = \<lparr>pab_hidden_size = ln_hidden_size n, aggre_out = True\<rparr>"

definition LaneNet_forward :: "LaneNet \<Rightarrow> shape \<Rightarrow> error + shape" where
  "LaneNet_forward n feats =
     bnd (lin_norm_relu (ln_in_size n) (ln_hidden_size n) feats) (\<lambda>x.
     bnd (PointAggregateBlock_forward (LaneNet_aggre1 n) x) (\<lambda>x.
       PointAggregateBlock_forward (LaneNet_aggre2 n) x))"


section \<open>ActorNet\<close>

text \<open>
  Modelled from the spec: \<^verbatim>\<open>Res1d\<close> and \<^verbatim>\<open>Conv1d\<close> of
  \<^verbatim>\<open>planners.mind.networks.layers\<close>, which is not among the sources. The spec has them
  as 1-D convolutional blocks with group normalization over an input
  \<^verbatim>\<open>(agents, channels, timesteps)\<close>: the channel count goes from \<^verbatim>\<open>n_in\<close> to \<^verbatim>\<open>n_out\<close>,
  a block of stride 1 keeps the temporal resolution and a block of stride 2 halves it
  (rounded up here).
\<close>

definition Conv1d :: "nat \<Rightarrow> nat \<Rightarrow> nat \<Rightarrow> shape \<Rightarrow> error + shape" where
  "Conv1d n_in n_out stride s =
     (case s of
        [a, c, t] \<Rightarrow>
          if c = n_in \<and> 0 < t \<and> 0 < stride then Inr [a, n_out, (t - 1) div stride + 1]
          else Inl ShapeError
      | _ \<Rightarrow> Inl ShapeError)"

definition Res1d :: "nat \<Rightarrow> nat \<Rightarrow> nat \<Rightarrow> shape \<Rightarrow> error + shape" where
  "Res1d n_in n_out stride s = Conv1d n_in n_out stride s"

text \<open>\<^verbatim>\<open>F.interpolate(t, scale_factor=2, mode="linear", align_corners=False)\<close>.\<close>

definition interpolate2 :: "shape \<Rightarrow> error + shape" where
  "interpolate2 s =
     (case s of
        [a, c, t] \<Rightarrow> if 0 < t then Inr [a, c, 2 * t] else Inl ShapeError
      | _ \<Rightarrow> Inl ShapeError)"

record ActorNet =
  an_n_in :: nat
  an_hidden_size :: nat
  n_fpn_scale :: nat

definition an_n_out :: "ActorNet \<Rightarrow> nat list" where
  "an_n_out n = map (\<lambda>s. 2 ^ (5 + s)) [0..<n_fpn_scale n]"

text \<open>\<^verbatim>\<open>self.groups[i]\<close>: two residual blocks; the first has stride 2 unless \<^verbatim>\<open>i = 0\<close>,
  and its input width is \<^verbatim>\<open>n_in\<close> for \<^verbatim>\<open>i = 0\<close> and \<^verbatim>\<open>n_out[i - 1]\<close> after.\<close>

definition an_group :: "ActorNet \<Rightarrow> nat \<Rightarrow> shape \<Rightarrow> error + shape" where
  "an_group n i s =
     bnd (if i = 0 then Res1d (an_n_in n) (an_n_out n ! i) 1 s
          else Res1d (an_n_out n ! (i - 1)) (an_n_out n ! i) 2 s)
       (Res1d (an_n_out n ! i) (an_n_out n ! i) 1)"

definition an_lateral :: "ActorNet \<Rightarrow> nat \<Rightarrow> shape \<Rightarrow> error + shape" where
  "an_lateral n i s = Conv1d (an_n_out n ! i) (an_hidden_size n) 1 s"

text \<open>The first loop of \<^verbatim>\<open>ActorNet.forward\<close>: the outputs of the groups, in order.\<close>

fun an_groups_loop :: "ActorNet \<Rightarrow> nat list \<Rightarrow> shape \<Rightarrow> error + shape list" where
  "an_groups_loop n [] out = Inr []"
| "an_groups_loop n (i # is) out =
     bnd (an_group n i out) (\<lambda>o1.
     bnd (an_groups_loop n is o1) (\<lambda>rest. Inr (o1 # rest)))"

text \<open>The second loop, over \<^verbatim>\<open>range(len(outputs) - 2, -1, -1)\<close>.\<close>

fun an_topdown_loop :: "ActorNet \<Rightarrow> shape list \<Rightarrow> nat list \<Rightarrow> shape \<Rightarrow> error + shape" where
  "an_topdown_loop n outputs [] out = Inr out"
| "an_topdown_loop n outputs (i # is) out =
     bnd (interpolate2 out) (\<lambda>up.
     bnd (an_lateral n i (outputs ! i)) (\<lambda>lat.
     bnd (iadd up lat) (\<lambda>out'. an_topdown_loop n outputs is out')))"

text \<open>\<^verbatim>\<open>t[:, :, -1]\<close>.\<close>

definition last_step :: "shape \<Rightarrow> error + shape" where
  "last_step s =
     (if 3 \<le> length s \<and> 0 < s ! 2 then Inr (take 2 s @ drop 3 s) else Inl IndexError)"

definition ActorNet_forward :: "ActorNet \<Rightarrow> shape \<Rightarrow> error + shape" where
  "ActorNet_forward n actors =
     bnd (an_groups_loop n [0..<n_fpn_scale n] actors) (\<lambda>outputs.
       if outputs = [] then Inl IndexError
       else
         bnd (an_lateral n (length outputs - 1) (last outputs)) (\<lambda>out.
         bnd (an_topdown_loop n outputs (rev [0..<length outputs - 1]) out) (\<lambda>out.
         bnd (Res1d (an_hidden_size n) (an_hidden_size n) 1 out) last_step)))"

section \<open>RelaFusionLayer and RelaFusionNet\<close>

text \<open>\<^verbatim>\<open>MultiheadAttention(embed_dim, num_heads, batch_first=False)\<close>: the constructor
  checks the two numbers; the call takes \<^verbatim>\<open>(L, N, E)\<close>, \<^verbatim>\<open>(S, N, E)\<close>, \<^verbatim>\<open>(S, N, E)\<close>
  (or the same without the batch axis \<^verbatim>\<open>N\<close>) and returns the shape of the query.\<close>

definition MultiheadAttention_init :: "nat \<Rightarrow> nat \<Rightarrow> error + unit" where
  "MultiheadAttention_init embed_dim num_heads =
     (if embed_dim = 0 \<or> num_heads = 0 then Inl ValueError
      else if embed_dim mod num_heads \<noteq> 0 then Inl AssertionError
      else Inr ())"

definition MultiheadAttention_forward :: "nat \<Rightarrow> shape \<Rightarrow> shape \<Rightarrow> shape \<Rightarrow> error + shape" where
  "MultiheadAttention_forward embed_dim q k v =
     (if length q = 3 \<and> length k = 3 \<and> k = v
         \<and> q ! 1 = k ! 1 \<and> q ! 2 = embed_dim \<and> k ! 2 = embed_dim then Inr q
      else if length q = 2 \<and> length k = 2 \<and> k = v
         \<and> q ! 1 = embed_dim \<and> k ! 1 = embed_dim then Inr q
      else Inl ShapeError)"

record RelaFusionLayer =
  d_edge :: nat
  d_model :: nat
  d_ffn :: nat
  n_head :: nat
  update_edge :: bool

definition RelaFusionLayer_init ::
  "nat \<Rightarrow> nat \<Rightarrow> nat \<Rightarrow> nat \<Rightarrow> bool \<Rightarrow> error + RelaFusionLayer" where
  "RelaFusionLayer_init de dm df nh ue =
     bnd (MultiheadAttention_init dm nh) (\<lambda>_.
       Inr \<lparr>d_edge = de, d_model = dm, d_ffn = df, n_head = nh, update_edge = ue\<rparr>)"

definition build_memory :: "RelaFusionLayer \<Rightarrow> shape \<Rightarrow> shape \<Rightarrow> error + shape \<times> shape \<times> shape" where
  "build_memory l node edge =
     bnd (shape_at node 0) (\<lambda>n_token.
     bnd (repeat [n_token, 1, 1] (unsqueeze0 node)) (\<lambda>src_x.
     bnd (unsqueeze1 node) (\<lambda>node1.
     bnd (repeat [1, n_token, 1] node1) (\<lambda>tar_x.
     bnd (cat [edge, src_x, tar_x] (- 1)) (\<lambda>c.
     bnd (lin_norm_relu (d_model l + d_model l + d_edge l) (d_model l) c) (\<lambda>memory.
     bnd (if update_edge l
          then bnd (lin_norm_relu (d_model l) (d_edge l) memory) (\<lambda>pe.
               bnd (add edge pe) (LayerNorm (d_edge l)))
          else Inr edge) (\<lambda>edge'.
       Inr (unsqueeze0 node, edge', memory))))))))"

definition mha_block :: "RelaFusionLayer \<Rightarrow> shape \<Rightarrow> shape \<Rightarrow> error + shape" where
  "mha_block l x mem = MultiheadAttention_forward (d_model l) x mem mem"

definition ff_block :: "RelaFusionLayer \<Rightarrow> shape \<Rightarrow> error + shape" where
  "ff_block l x =
     bnd (bnd (Linear (d_model l) (d_ffn l) x) ReLU) (Linear (d_ffn l) (d_model l))"

definition RelaFusionLayer_forward :: "RelaFusionLayer \<Rightarrow> shape \<Rightarrow> shape \<Rightarrow> error + shape \<times> shape" where
  "RelaFusionLayer_forward l node edge =
     bnd (build_memory l node edge) (\<lambda>(x, edge', memory).
     bnd (mha_block l x memory) (\<lambda>x_prime.
     bnd (add x x_prime) (\<lambda>s.
     bnd (LayerNorm (d_model l) s) (\<lambda>n2.
     bnd (ff_block l (squeeze n2)) (\<lambda>f.
     bnd (add (squeeze n2) f) (\<lambda>s3.
     bnd (LayerNorm (d_model l) s3) (\<lambda>x'. Inr (x', edge'))))))))"

text \<open>\<^verbatim>\<open>RelaFusionNet.__init__\<close>: the flag of layer \<^verbatim>\<open>i\<close>, and the list of layers.\<close>

definition need_update_edge :: "nat \<Rightarrow> bool \<Rightarrow> nat \<Rightarrow> bool" where
  "need_update_edge n_layer ue i = (if int i = int n_layer - 1 then False else ue)"

fun init_layers :: "(nat \<Rightarrow> error + 'a) \<Rightarrow> nat list \<Rightarrow> error + 'a list" where
  "init_layers mk [] = Inr []"
| "init_layers mk (i # is) =
     bnd (mk i) (\<lambda>l. bnd (init_layers mk is) (\<lambda>ls. Inr (l # ls)))"

definition RelaFusionNet_init ::
  "nat \<Rightarrow> nat \<Rightarrow> nat \<Rightarrow> nat \<Rightarrow> bool \<Rightarrow> error + RelaFusionLayer list" where
  "RelaFusionNet_init dm de nh n_layer ue =
     init_layers (\<lambda>i. RelaFusionLayer_init de dm (dm * 2) nh (need_update_edge n_layer ue i))
       [0..<n_layer]"

fun RelaFusionNet_forward :: "RelaFusionLayer list \<Rightarrow> shape \<Rightarrow> shape \<Rightarrow> error + shape" where
  "RelaFusionNet_forward [] x edge = Inr x"
| "RelaFusionNet_forward (l # ls) x edge =
     bnd (RelaFusionLayer_forward l x edge) (\<lambda>(x', edge'). RelaFusionNet_forward ls x' edge')"


section \<open>FusionNet\<close>

text \<open>The construction-time options (the \<^verbatim>\<open>cfg\<close> dictionary); \<^verbatim>\<open>dropout\<close> has no
  effect on shapes and is left out.\<close>

record config =
  in_actor :: nat
  in_lane :: nat
  cfg_n_fpn_scale :: nat
  d_actor :: nat
  d_lane :: nat
  d_embed :: nat
  d_rpe :: nat
  d_rpe_in :: nat
  cfg_update_edge :: bool
  n_scene_head :: nat
  n_scene_layer :: nat
  cfg_param_out :: string
  g_pred_len :: nat
  g_num_modes :: nat

record FusionNet =
  fn_d_model :: nat
  fn_d_rpe :: nat
  fn_d_actor :: nat
  fn_d_lane :: nat
  fn_d_rpe_in :: nat
  fuse_scene :: "RelaFusionLayer list"

definition FusionNet_init :: "config \<Rightarrow> error + FusionNet" where
  "FusionNet_init cfg =
     bnd (RelaFusionNet_init (d_embed cfg) (d_rpe cfg) (n_scene_head cfg) (n_scene_layer cfg)
            (cfg_update_edge cfg)) (\<lambda>layers.
       Inr \<lparr>fn_d_model = d_embed cfg, fn_d_rpe = d_rpe cfg, fn_d_actor = d_actor cfg,
            fn_d_lane = d_lane cfg, fn_d_rpe_in = d_rpe_in cfg, fuse_scene = layers\<rparr>)"

text \<open>\<^verbatim>\<open>t[:k]\<close>, \<^verbatim>\<open>t[k:-1]\<close> and a dictionary lookup.\<close>

definition slice_to :: "shape \<Rightarrow> nat \<Rightarrow> error + shape" where
  "slice_to s k = (case s of [] \<Rightarrow> Inl IndexError | n # ds \<Rightarrow> Inr (min k n # ds))"

definition slice_from_to_last :: "shape \<Rightarrow> nat \<Rightarrow> error + shape" where
  "slice_from_to_last s k =
     (case s of [] \<Rightarrow> Inl IndexError | n # ds \<Rightarrow> Inr ((n - 1 - k) # ds))"

definition lookup :: "(string \<rightharpoonup> 'v) \<Rightarrow> string \<Rightarrow> error + 'v" where
  "lookup m k = (case m k of None \<Rightarrow> Inl KeyError | Some v \<Rightarrow> Inr v)"

text \<open>The body of the loop of \<^verbatim>\<open>FusionNet.forward\<close>, on the projected actors and lanes:
  what it appends to \<^verbatim>\<open>actors_new\<close>, \<^verbatim>\<open>lanes_new\<close> and \<^verbatim>\<open>cls_new\<close>.\<close>

definition fuse_one_scene ::
  "FusionNet \<Rightarrow> shape \<Rightarrow> shape \<Rightarrow> int list \<Rightarrow> int list \<Rightarrow> (string \<rightharpoonup> shape)
     \<Rightarrow> error + shape \<times> shape \<times> shape" where
  "fuse_one_scene f actors lanes a_idcs l_idcs rpes =
     bnd (index_tensor actors a_idcs) (\<lambda>actors1.
     bnd (index_tensor lanes l_idcs) (\<lambda>lanes1.
     bnd (cat [actors1, lanes1] 0) (\<lambda>tokens.
     bnd (cat [tokens, [1, fn_d_model f]] 0) (\<lambda>tokens_with_cls.
     bnd (lookup rpes ''scene'') (\<lambda>scene.
     bnd (permute [1, 2, 0] scene) (\<lambda>scene1.
     bnd (lin_norm_relu (fn_d_rpe_in f) (fn_d_rpe f) scene1) (\<lambda>rpe.
     bnd (shape_at tokens_with_cls 0) (\<lambda>n1.
     bnd (shape_at tokens 0) (\<lambda>n.
     bnd (setitem [min n n1, min n n1, fn_d_rpe f] rpe) (\<lambda>_.
     bnd (RelaFusionNet_forward (fuse_scene f) tokens_with_cls [n1, n1, fn_d_rpe f]) (\<lambda>out.
     bnd (slice_to out (length a_idcs)) (\<lambda>a_new.
     bnd (slice_from_to_last out (length a_idcs)) (\<lambda>l_new.
     bnd (index_int out (- 1)) (\<lambda>c.
       Inr (a_new, l_new, unsqueeze0 c)))))))))))))))"

text \<open>The loop over \<^verbatim>\<open>zip(actor_idcs, lane_idcs, rpe_prep)\<close>, which stops with the
  shortest of the three lists.\<close>

fun fuse_scenes ::
  "FusionNet \<Rightarrow> shape \<Rightarrow> shape \<Rightarrow> int list list \<Rightarrow> int list list \<Rightarrow> (string \<rightharpoonup> shape) list
     \<Rightarrow> error + (shape \<times> shape \<times> shape) list" where
  "fuse_scenes f actors lanes (a # as) (l # ls) (r # rs) =
     bnd (fuse_one_scene f actors lanes a l r) (\<lambda>o1.
     bnd (fuse_scenes f actors lanes as ls rs) (\<lambda>rest. Inr (o1 # rest)))"
| "fuse_scenes f actors lanes as ls rs = Inr []"

definition FusionNet_forward ::
  "FusionNet \<Rightarrow> shape \<Rightarrow> int list list \<Rightarrow> shape \<Rightarrow> int list list \<Rightarrow> (string \<rightharpoonup> shape) list
     \<Rightarrow> error + shape \<times> shape \<times> shape" where
  "FusionNet_forward f actors actor_idcs lanes lane_idcs rpe_prep =
     bnd (lin_norm_relu (fn_d_actor f) (fn_d_model f) actors) (\<lambda>actors1.
     bnd (lin_norm_relu (fn_d_lane f) (fn_d_model f) lanes) (\<lambda>lanes1.
     bnd (fuse_scenes f actors1 lanes1 actor_idcs lane_idcs rpe_prep) (\<lambda>outs.
     bnd (cat (map fst outs) 0) (\<lambda>actors2.
     bnd (cat (map (\<lambda>r. fst (snd r)) outs) 0) (\<lambda>lanes2.
     bnd (cat (map (\<lambda>r. snd (snd r)) outs) 0) (\<lambda>cls.
       Inr (actors2, lanes2, cls)))))))"


section \<open>The basis matrices of the decoder\<close>

text \<open>
  Tensor entries are reals: floating-point rounding is not modelled.
  \<^verbatim>\<open>np.linspace(start, stop, num, endpoint=True)\<close> is \<^verbatim>\<open>arange(num) * step + start\<close>
  with \<^verbatim>\<open>step = (stop - start) / (num - 1)\<close>, the last entry then set to \<^verbatim>\<open>stop\<close>;
  for \<^verbatim>\<open>num = 1\<close> it is \<^verbatim>\<open>[start]\<close>.
\<close>

definition linspace :: "real \<Rightarrow> real \<Rightarrow> nat \<Rightarrow> real list" where
  "linspace start stop num =
     (if num = 0 then []
      else if num = 1 then [start]
      else (map (\<lambda>k. real k * ((stop - start) / real (num - 1)) + start) [0..<num])
             [num - 1 := stop])"

text \<open>The entry of column \<^verbatim>\<open>i\<close> at time \<^verbatim>\<open>t\<close> in each of the four matrices.\<close>

definition coeff_T_bezier :: "nat \<Rightarrow> nat \<Rightarrow> real \<Rightarrow> real" where
  "coeff_T_bezier n_order i t = real (n_order choose i) * (1 - t) ^ (n_order - i) * t ^ i"

definition coeff_Tp_bezier :: "nat \<Rightarrow> nat \<Rightarrow> real \<Rightarrow> real" where
  "coeff_Tp_bezier n_order i t =
     real (n_order * ((n_order - 1) choose i)) * (1 - t) ^ (n_order - 1 - i) * t ^ i"

definition coeff_T_monomial :: "nat \<Rightarrow> real \<Rightarrow> real" where
  "coeff_T_monomial i t = t ^ i"

definition coeff_Tp_monomial :: "nat \<Rightarrow> real \<Rightarrow> real" where
  "coeff_Tp_monomial i t = real (i + 1) * t ^ i"

text \<open>\<^verbatim>\<open>torch.Tensor(np.array(T).T)\<close>: \<^verbatim>\<open>T\<close> holds one list per column.\<close>

definition get_T_matrix_bezier :: "nat \<Rightarrow> nat \<Rightarrow> real list list" where
  "get_T_matrix_bezier n_order n_step =
     transpose (map (\<lambda>i. map (coeff_T_bezier n_order i) (linspace 0 1 n_step))
                  [0..<n_order + 1])"

definition get_Tp_matrix_bezier :: "nat \<Rightarrow> nat \<Rightarrow> real list list" where
  "get_Tp_matrix_bezier n_order n_step =
     transpose (map (\<lambda>i. map (coeff_Tp_bezier n_order i) (linspace 0 1 n_step))
                  [0..<n_order])"

definition get_T_matrix_monomial :: "nat \<Rightarrow> nat \<Rightarrow> real list list" where
  "get_T_matrix_monomial n_order n_step =
     transpose (map (\<lambda>i. map (coeff_T_monomial i) (linspace 0 1 n_step))
                  [0..<n_order + 1])"

definition get_Tp_matrix_monomial :: "nat \<Rightarrow> nat \<Rightarrow> real list list" where
  "get_Tp_matrix_monomial n_order n_step =
     transpose (map (\<lambda>i. map (coeff_Tp_monomial i) (linspace 0 1 n_step))
                  [0..<n_order])"

section \<open>SceneDecoder\<close>

text \<open>
  The attributes \<^verbatim>\<open>N_ORDER\<close>, \<^verbatim>\<open>mat_T\<close> and \<^verbatim>\<open>mat_Tp\<close> exist only when the constructor
  took the \<^verbatim>\<open>bezier\<close> or the \<^verbatim>\<open>monomial\<close> branch; \<open>reg_out\<close> is the width of the last
  layer of \<^verbatim>\<open>self.reg\<close>.
\<close>

record SceneDecoder =
  hidden_size :: nat
  future_steps :: nat
  num_modes :: nat
  param_out :: string
  N_ORDER :: "nat option"
  mat_T :: "real list list option"
  mat_Tp :: "real list list option"
  reg_out :: nat

definition SceneDecoder_init :: "string \<Rightarrow> nat \<Rightarrow> nat \<Rightarrow> nat \<Rightarrow> error + SceneDecoder" where
  "SceneDecoder_init param_out' hidden_size' future_steps' num_modes' =
     bnd (MultiheadAttention_init hidden_size' 4) (\<lambda>_.
       if param_out' = ''bezier'' then
         Inr \<lparr>hidden_size = hidden_size', future_steps = future_steps', num_modes = num_modes',
              param_out = param_out', N_ORDER = Some 7,
              mat_T = Some (get_T_matrix_bezier 7 future_steps'),
              mat_Tp = Some (get_Tp_matrix_bezier 7 future_steps'),
              reg_out = (7 + 1) * 5\<rparr>
       else if param_out' = ''monomial'' then
         Inr \<lparr>hidden_size = hidden_size', future_steps = future_steps', num_modes = num_modes',
              param_out = param_out', N_ORDER = Some 7,
              mat_T = Some (get_T_matrix_monomial 7 future_steps'),
              mat_Tp = Some (get_Tp_matrix_monomial 7 future_steps'),
              reg_out = (7 + 1) * 5\<rparr>
       else if param_out' = ''none'' then
         Inr \<lparr>hidden_size = hidden_size', future_steps = future_steps', num_modes = num_modes',
              param_out = param_out', N_ORDER = None, mat_T = None, mat_Tp = None,
              reg_out = future_steps' * 5\<rparr>
       else Inl NotImplementedError)"

text \<open>Reading an attribute that the constructor may not have set.\<close>

definition attr :: "'a option \<Rightarrow> error + 'a" where
  "attr a = (case a of None \<Rightarrow> Inl AttributeError | Some v \<Rightarrow> Inr v)"

text \<open>The shape of a basis matrix: its rows (one per future step) and its \<^verbatim>\<open>cols\<close>
  columns, \<^verbatim>\<open>N_ORDER + 1\<close> for \<^verbatim>\<open>mat_T\<close> and \<^verbatim>\<open>N_ORDER\<close> for \<^verbatim>\<open>mat_Tp\<close>.\<close>

definition mat_shape :: "real list list \<Rightarrow> nat \<Rightarrow> shape" where
  "mat_shape m cols = [length m, cols]"

definition dim_mm :: "SceneDecoder \<Rightarrow> nat" where
  "dim_mm dec = hidden_size dec * num_modes dec"

definition dim_inter :: "SceneDecoder \<Rightarrow> nat" where
  "dim_inter dec = dim_mm dec div 2"

definition actor_proj :: "SceneDecoder \<Rightarrow> shape \<Rightarrow> error + shape" where
  "actor_proj dec s =
     bnd (lin_norm_relu (hidden_size dec) (dim_inter dec) s)
       (lin_norm_relu (dim_inter dec) (dim_mm dec))"

definition ctx_proj :: "SceneDecoder \<Rightarrow> shape \<Rightarrow> error + shape" where
  "ctx_proj dec s =
     bnd (lin_norm_relu (hidden_size dec) (dim_inter dec) s)
       (lin_norm_relu (dim_inter dec) (dim_mm dec))"

text \<open>\<^verbatim>\<open>self.ctx_sat\<close>: a \<^verbatim>\<open>TransformerEncoder\<close> of width \<^verbatim>\<open>hidden_size\<close> on a
  \<^verbatim>\<open>(S, N, E)\<close> or \<^verbatim>\<open>(S, E)\<close> input; the shape is kept.\<close>

definition ctx_sat :: "SceneDecoder \<Rightarrow> shape \<Rightarrow> error + shape" where
  "ctx_sat dec s =
     (if (length s = 3 \<or> length s = 2) \<and> last s = hidden_size dec then Inr s
      else Inl ShapeError)"

definition proj_rpe :: "SceneDecoder \<Rightarrow> shape \<Rightarrow> error + shape" where
  "proj_rpe dec s = lin_norm_relu (5 * 2 * 2) (hidden_size dec) s"

definition proj_tgt :: "SceneDecoder \<Rightarrow> shape \<Rightarrow> error + shape" where
  "proj_tgt dec s =
     bnd (lin_norm_relu (2 * hidden_size dec) (hidden_size dec) s)
       (lin_norm_relu (hidden_size dec) (hidden_size dec))"

definition cls_head :: "SceneDecoder \<Rightarrow> shape \<Rightarrow> error + shape" where
  "cls_head dec s =
     bnd (bnd (lin_norm_relu (hidden_size dec) (hidden_size dec) s)
            (lin_norm_relu (hidden_size dec) (hidden_size dec)))
       (Linear (hidden_size dec) 1)"

definition reg_head :: "SceneDecoder \<Rightarrow> shape \<Rightarrow> error + shape" where
  "reg_head dec s =
     bnd (bnd (lin_norm_relu (hidden_size dec) (hidden_size dec) s)
            (lin_norm_relu (hidden_size dec) (hidden_size dec)))
       (Linear (hidden_size dec) (reg_out dec))"

text \<open>\<^verbatim>\<open>t[..., :2]\<close>, \<^verbatim>\<open>t[..., 2:]\<close> and \<^verbatim>\<open>t[:, :, 1:, :]\<close>.\<close>

definition chan_to2 :: "shape \<Rightarrow> error + shape" where
  "chan_to2 s = (if s = [] then Inl IndexError else Inr (butlast s @ [min 2 (last s)]))"

definition chan_from2 :: "shape \<Rightarrow> error + shape" where
  "chan_from2 s = (if s = [] then Inl IndexError else Inr (butlast s @ [last s - 2]))"

definition ctrl_from1 :: "shape \<Rightarrow> error + shape" where
  "ctrl_from1 s = (if 4 \<le> length s then Inr (s[2 := s ! 2 - 1]) else Inl IndexError)"

text \<open>\<^verbatim>\<open>torch.matmul(m, t)\<close> for a matrix \<^verbatim>\<open>m\<close> and a tensor \<^verbatim>\<open>t\<close> of rank 2 or more, as
  the decoder calls it: the product is taken over the last two axes of \<^verbatim>\<open>t\<close>.\<close>

definition matmul :: "shape \<Rightarrow> shape \<Rightarrow> error + shape" where
  "matmul m t =
     (if length m = 2 \<and> 2 \<le> length t \<and> m ! 1 = t ! (length t - 2)
      then Inr (take (length t - 2) t @ [m ! 0, last t])
      else Inl ShapeError)"

text \<open>\<^verbatim>\<open>torch.diff(t, dim=2)\<close> and \<^verbatim>\<open>torch.gradient(t, dim=-2)[0]\<close>, which needs two
  entries along the axis.\<close>

definition diff2 :: "shape \<Rightarrow> error + shape" where
  "diff2 s =
     (if 3 \<le> length s \<and> 0 < s ! 2 then Inr (s[2 := s ! 2 - 1]) else Inl ShapeError)"

definition gradient_m2 :: "shape \<Rightarrow> error + shape" where
  "gradient_m2 s =
     (if 2 \<le> length s \<and> 2 \<le> s ! (length s - 2) then Inr s else Inl ShapeError)"

text \<open>The three branches on \<^verbatim>\<open>self.param_out\<close> inside the loop of
  \<^verbatim>\<open>SceneDecoder.forward\<close>; each returns \<^verbatim>\<open>(reg, vel, cov, cov_vel, param)\<close>.\<close>

definition param_view :: "SceneDecoder \<Rightarrow> shape \<Rightarrow> error + shape" where
  "param_view dec emb =
     bnd (reg_head dec emb) (\<lambda>r.
     bnd (attr (N_ORDER dec)) (\<lambda>n.
       view [Some (num_modes dec), None, Some (n + 1), Some 5] r))"

definition branch_bezier ::
  "SceneDecoder \<Rightarrow> shape \<Rightarrow> error + shape \<times> shape \<times> shape \<times> shape \<times> shape" where
  "branch_bezier dec emb =
     bnd (param_view dec emb) (\<lambda>param.
     bnd (bnd (chan_to2 param) (permute [1, 0, 2, 3])) (\<lambda>reg_param.
     bnd (attr (mat_T dec)) (\<lambda>mT.
     bnd (attr (N_ORDER dec)) (\<lambda>n.
     bnd (matmul (mat_shape mT (n + 1)) reg_param) (\<lambda>reg.
     bnd (attr (mat_Tp dec)) (\<lambda>mTp.
     bnd (bnd (diff2 reg_param) (matmul (mat_shape mTp n))) (\<lambda>vel.
     bnd (bnd (chan_from2 param) (permute [1, 0, 2, 3])) (\<lambda>cov_param.
     bnd (matmul (mat_shape mT (n + 1)) cov_param) (\<lambda>cov.
     bnd (bnd (diff2 cov_param) (matmul (mat_shape mTp n))) (\<lambda>cov_vel.
       Inr (reg, vel, cov, cov_vel, param)))))))))))"

definition branch_monomial ::
  "SceneDecoder \<Rightarrow> shape \<Rightarrow> error + shape \<times> shape \<times> shape \<times> shape \<times> shape" where
  "branch_monomial dec emb =
     bnd (param_view dec emb) (\<lambda>param.
     bnd (bnd (chan_to2 param) (permute [1, 0, 2, 3])) (\<lambda>reg_param.
     bnd (attr (mat_T dec)) (\<lambda>mT.
     bnd (attr (N_ORDER dec)) (\<lambda>n.
     bnd (matmul (mat_shape mT (n + 1)) reg_param) (\<lambda>reg.
     bnd (attr (mat_Tp dec)) (\<lambda>mTp.
     bnd (bnd (ctrl_from1 reg_param) (matmul (mat_shape mTp n))) (\<lambda>vel.
     bnd (bnd (chan_from2 param) (permute [1, 0, 2, 3])) (\<lambda>cov_param.
     bnd (matmul (mat_shape mT (n + 1)) cov_param) (\<lambda>cov.
     bnd (bnd (diff2 cov_param) (matmul (mat_shape mTp n))) (\<lambda>cov_vel.
       Inr (reg, vel, cov, cov_vel, param)))))))))))"

definition branch_none ::
  "SceneDecoder \<Rightarrow> shape \<Rightarrow> error + shape \<times> shape \<times> shape \<times> shape \<times> shape" where
  "branch_none dec emb =
     bnd (param_view dec emb) (\<lambda>param.
     bnd (bnd (chan_to2 param) (permute [1, 0, 2, 3])) (\<lambda>reg.
     bnd (gradient_m2 reg) (\<lambda>vel.
     bnd (bnd (chan_from2 param) (permute [1, 0, 2, 3])) (\<lambda>cov.
     bnd (gradient_m2 cov) (\<lambda>cov_vel.
       Inr (reg, vel, cov, cov_vel, param))))))"

text \<open>The body of the loop of \<^verbatim>\<open>SceneDecoder.forward\<close> for scene \<^verbatim>\<open>idx\<close>: what it
  appends to \<^verbatim>\<open>res_cls\<close>, \<^verbatim>\<open>res_reg\<close> and \<^verbatim>\<open>res_aux\<close>. With a \<^verbatim>\<open>param_out\<close> other than
  the three (the constructor refuses it) no branch would bind \<^verbatim>\<open>reg\<close>.\<close>

type_synonym aux = "shape \<times> shape \<times> shape option"

definition decode_scene ::
  "SceneDecoder \<Rightarrow> shape \<Rightarrow> shape \<Rightarrow> shape \<Rightarrow> nat \<Rightarrow> int list \<Rightarrow> error + shape \<times> shape \<times> aux" where
  "decode_scene dec ctx actors tgt idx a_idcs =
     bnd (index_int ctx (int idx)) (\<lambda>c.
     bnd (index_tensor actors a_idcs) (\<lambda>actors1.
     bnd (bnd (bnd (ctx_proj dec (unsqueeze0 c))
            (view [None, Some (num_modes dec), Some (hidden_size dec)])) (permute [1, 0, 2]))
       (\<lambda>cls_embed0.
     bnd (ctx_sat dec cls_embed0) (\<lambda>cls_embed.
     bnd (bnd (bnd (actor_proj dec actors1)
            (view [None, Some (num_modes dec), Some (hidden_size dec)])) (permute [1, 0, 2]))
       (\<lambda>actor_embed.
     bnd (Inr (zeros_like actor_embed)) (\<lambda>tgt_embed.
     bnd (index_int tgt (int idx)) (\<lambda>t.
     bnd (index_int tgt_embed 0) (\<lambda>slot.
     bnd (setitem slot (unsqueeze0 t)) (\<lambda>_.
     bnd (add cls_embed actor_embed) (\<lambda>e1.
     bnd (add e1 tgt_embed) (\<lambda>emb.
     bnd (bnd (cls_head dec cls_embed) (view [Some (num_modes dec), None])) (\<lambda>cls.
     bnd (if param_out dec = ''bezier'' then branch_bezier dec emb
          else if param_out dec = ''monomial'' then branch_monomial dec emb
          else if param_out dec = ''none'' then branch_none dec emb
          else Inl UnboundLocalError) (\<lambda>(reg, vel, cov, cov_vel, param).
     bnd (cat [reg, cov] (- 1)) (\<lambda>reg1.
     bnd (permute [1, 0] cls) (\<lambda>cls1.
       Inr (cls1, reg1,
            (vel, cov_vel, if param_out dec = ''none'' then None else Some param))
     )))))))))))))))"

text \<open>The loop over \<^verbatim>\<open>enumerate(actor_idcs)\<close>.\<close>

fun decode_scenes ::
  "SceneDecoder \<Rightarrow> shape \<Rightarrow> shape \<Rightarrow> shape \<Rightarrow> nat \<Rightarrow> int list list
     \<Rightarrow> error + (shape \<times> shape \<times> aux) list" where
  "decode_scenes dec ctx actors tgt idx [] = Inr []"
| "decode_scenes dec ctx actors tgt idx (a # as) =
     bnd (decode_scene dec ctx actors tgt idx a) (\<lambda>o1.
     bnd (decode_scenes dec ctx actors tgt (Suc idx) as) (\<lambda>rest. Inr (o1 # rest)))"

definition SceneDecoder_forward ::
  "SceneDecoder \<Rightarrow> shape \<Rightarrow> shape \<Rightarrow> int list list \<Rightarrow> shape \<Rightarrow> shape
     \<Rightarrow> error + shape list \<times> shape list \<times> aux list" where
  "SceneDecoder_forward dec ctx actors actor_idcs tgt_feat tgt_rpes =
     bnd (proj_rpe dec tgt_rpes) (\<lambda>tgt_rpes1.
     bnd (cat [if length tgt_feat = 1 then unsqueeze0 tgt_feat else tgt_feat, tgt_rpes1] (- 1))
       (\<lambda>c.
     bnd (proj_tgt dec c) (\<lambda>tgt.
     bnd (decode_scenes dec ctx actors tgt 0 actor_idcs) (\<lambda>outs.
       Inr (map fst outs, map (\<lambda>r. fst (snd r)) outs, map (\<lambda>r. snd (snd r)) outs)))))"

section \<open>ScenePredNet\<close>

record ScenePredNet =
  actor_net :: ActorNet
  lane_net :: LaneNet
  fusion_net :: FusionNet
  pred_scene :: SceneDecoder

definition ScenePredNet_init :: "config \<Rightarrow> error + ScenePredNet" where
  "ScenePredNet_init cfg =
     bnd (FusionNet_init cfg) (\<lambda>f.
     bnd (SceneDecoder_init (cfg_param_out cfg) (d_embed cfg) (g_pred_len cfg) (g_num_modes cfg))
       (\<lambda>dec.
       Inr \<lparr>actor_net = \<lparr>an_n_in = in_actor cfg, an_hidden_size = d_actor cfg,
                         n_fpn_scale = cfg_n_fpn_scale cfg\<rparr>,
            lane_net = \<lparr>ln_in_size = in_lane cfg, ln_hidden_size = d_lane cfg\<rparr>,
            fusion_net = f, pred_scene = dec\<rparr>))"

text \<open>The tuple \<^verbatim>\<open>data\<close> that \<^verbatim>\<open>ScenePredNet.forward\<close> unpacks.\<close>

record data =
  ACTORS :: shape
  ACTOR_IDCS :: "int list list"
  LANES :: shape
  LANE_IDCS :: "int list list"
  RPE :: "(string \<rightharpoonup> shape) list"
  TGT_NODES :: shape
  TGT_RPE :: shape

definition ScenePredNet_forward ::
  "ScenePredNet \<Rightarrow> data \<Rightarrow> error + shape list \<times> shape list \<times> aux list" where
  "ScenePredNet_forward net d =
     bnd (ActorNet_forward (actor_net net) (ACTORS d)) (\<lambda>actors.
     bnd (LaneNet_forward (lane_net net) (LANES d)) (\<lambda>lanes.
     bnd (LaneNet_forward (lane_net net) (TGT_NODES d)) (\<lambda>tgt_feat.
     bnd (FusionNet_forward (fusion_net net) actors (ACTOR_IDCS d) lanes (LANE_IDCS d) (RPE d))
       (\<lambda>(actors1, lanes1, cls).
       SceneDecoder_forward (pred_scene net) cls actors1 (ACTOR_IDCS d) tgt_feat (TGT_RPE d)))))"


definition run_model :: "config \<Rightarrow> data \<Rightarrow> error + shape list \<times> shape list \<times> aux list" where
  "run_model cfg d = bnd (ScenePredNet_init cfg) (\<lambda>net. ScenePredNet_forward net d)"

definition run_decoder ::
  "string \<Rightarrow> nat \<Rightarrow> nat \<Rightarrow> nat \<Rightarrow> shape \<Rightarrow> shape \<Rightarrow> int list list \<Rightarrow> shape \<Rightarrow> shape
     \<Rightarrow> error + shape list \<times> shape list \<times> aux list" where
  "run_decoder po h steps k ctx actors actor_idcs tgt_feat tgt_rpes =
     bnd (SceneDecoder_init po h steps k) (\<lambda>dec.
       SceneDecoder_forward dec ctx actors actor_idcs tgt_feat tgt_rpes)"

section \<open>Values: the decoder's output heads\<close>

text \<open>
  At the value level a tensor is a nested list of reals, one level of nesting per axis.
  The shapes are those the shape level has checked: the functions below are the
  arithmetic of \<^verbatim>\<open>SceneDecoder.forward\<close> on well-shaped arguments.
\<close>

type_synonym tensor2 = "real list list"
type_synonym tensor3 = "real list list list"
type_synonym tensor4 = "real list list list list"

text \<open>\<^verbatim>\<open>torch.matmul(m, x)\<close> for a matrix \<^verbatim>\<open>m\<close> and one \<^verbatim>\<open>(rows, channels)\<close> slice
  \<^verbatim>\<open>x\<close>: entry \<^verbatim>\<open>(t, j)\<close> is the sum over \<^verbatim>\<open>i\<close> of \<^verbatim>\<open>m[t][i] * x[i][j]\<close>.\<close>

definition channels :: "tensor2 \<Rightarrow> nat" where
  "channels x = (case x of [] \<Rightarrow> 0 | p # _ \<Rightarrow> length p)"

definition matmul_val :: "tensor2 \<Rightarrow> tensor2 \<Rightarrow> tensor2" where
  "matmul_val m x =
     map (\<lambda>row. map (\<lambda>j. sum_list (map2 (\<lambda>a p. a * p ! j) row x)) [0..<channels x]) m"

text \<open>\<^verbatim>\<open>torch.diff\<close> along the axis of the control points, on one slice.\<close>

definition diff_val :: "tensor2 \<Rightarrow> tensor2" where
  "diff_val x = map2 (\<lambda>p q. map2 (\<lambda>a b. b - a) p q) x (tl x)"

definition div_val :: "tensor2 \<Rightarrow> real \<Rightarrow> tensor2" where
  "div_val x d = map (map (\<lambda>v. v / d)) x"

text \<open>\<^verbatim>\<open>param[..., :2].permute(1, 0, 2, 3)\<close> and \<^verbatim>\<open>param[..., 2:].permute(1, 0, 2, 3)\<close> for
  \<^verbatim>\<open>param\<close> of shape \<^verbatim>\<open>(K, A, N_ORDER + 1, 5)\<close>.\<close>

definition reg_param_val :: "tensor4 \<Rightarrow> tensor4" where
  "reg_param_val param = transpose (map (map (map (take 2))) param)"

definition cov_param_val :: "tensor4 \<Rightarrow> tensor4" where
  "cov_param_val param = transpose (map (map (map (drop 2))) param)"

text \<open>The \<^verbatim>\<open>bezier\<close> and \<^verbatim>\<open>monomial\<close> branches on the value of \<^verbatim>\<open>param\<close>; each returns
  \<^verbatim>\<open>(reg, vel, cov, cov_vel)\<close>.\<close>

definition branch_bezier_val ::
  "SceneDecoder \<Rightarrow> tensor4 \<Rightarrow> error + tensor4 \<times> tensor4 \<times> tensor4 \<times> tensor4" where
  "branch_bezier_val dec param =
     bnd (attr (mat_T dec)) (\<lambda>mT.
     bnd (attr (mat_Tp dec)) (\<lambda>mTp.
       Inr (map (map (matmul_val mT)) (reg_param_val param),
            map (map (\<lambda>x. div_val (matmul_val mTp (diff_val x))
                             (real (future_steps dec) * 0.1))) (reg_param_val param),
            map (map (matmul_val mT)) (cov_param_val param),
            map (map (\<lambda>x. div_val (matmul_val mTp (diff_val x))
                             (real (future_steps dec) * 0.1))) (cov_param_val param))))"

definition branch_monomial_val ::
  "SceneDecoder \<Rightarrow> tensor4 \<Rightarrow> error + tensor4 \<times> tensor4 \<times> tensor4 \<times> tensor4" where
  "branch_monomial_val dec param =
     bnd (attr (mat_T dec)) (\<lambda>mT.
     bnd (attr (mat_Tp dec)) (\<lambda>mTp.
       Inr (map (map (matmul_val mT)) (reg_param_val param),
            map (map (\<lambda>x. div_val (matmul_val mTp (tl x))
                             (real (future_steps dec) * 0.1))) (reg_param_val param),
            map (map (matmul_val mT)) (cov_param_val param),
            map (map (\<lambda>x. div_val (matmul_val mTp (diff_val x))
                             (real (future_steps dec) * 0.1))) (cov_param_val param))))"

text \<open>\<^verbatim>\<open>torch.cat([reg, torch.exp(cov)], dim=-1)\<close>.\<close>

definition cat_exp_val :: "tensor4 \<Rightarrow> tensor4 \<Rightarrow> tensor4" where
  "cat_exp_val reg cov = map2 (map2 (map2 (\<lambda>r c. r @ map exp c))) reg cov"

text \<open>The branch that \<^verbatim>\<open>self.param_out\<close> selects, for the two basis
  parameterizations. Under \<^verbatim>\<open>'none'\<close> there is no value of \<^verbatim>\<open>param\<close>: the reshape that
  would give it reads \<^verbatim>\<open>self.N_ORDER\<close>.\<close>

definition basis_branch_val ::
  "SceneDecoder \<Rightarrow> tensor4 \<Rightarrow> error + tensor4 \<times> tensor4 \<times> tensor4 \<times> tensor4" where
  "basis_branch_val dec param =
     (if param_out dec = ''bezier'' then branch_bezier_val dec param
      else if param_out dec = ''monomial'' then branch_monomial_val dec param
      else Inl AttributeError)"

text \<open>The trajectories the decoder appends to \<^verbatim>\<open>res_reg\<close>, from the value of
  \<^verbatim>\<open>param\<close>.\<close>

definition trajectories_val :: "SceneDecoder \<Rightarrow> tensor4 \<Rightarrow> error + tensor4" where
  "trajectories_val dec param =
     bnd (basis_branch_val dec param) (\<lambda>(reg, vel, cov, cov_vel). Inr (cat_exp_val reg cov))"

text \<open>Construction followed by the selected branch, and by the final concatenation.\<close>

definition run_basis_val ::
  "string \<Rightarrow> nat \<Rightarrow> nat \<Rightarrow> nat \<Rightarrow> tensor4
     \<Rightarrow> error + tensor4 \<times> tensor4 \<times> tensor4 \<times> tensor4" where
  "run_basis_val po h steps k param =
     bnd (SceneDecoder_init po h steps k) (\<lambda>dec. basis_branch_val dec param)"

definition positions_val :: "string \<Rightarrow> nat \<Rightarrow> nat \<Rightarrow> nat \<Rightarrow> tensor4 \<Rightarrow> error + tensor4" where
  "positions_val po h steps k param =
     bnd (run_basis_val po h steps k param) (\<lambda>(reg, vel, cov, cov_vel). Inr reg)"

definition velocities_val :: "string \<Rightarrow> nat \<Rightarrow> nat \<Rightarrow> nat \<Rightarrow> tensor4 \<Rightarrow> error + tensor4" where
  "velocities_val po h steps k param =
     bnd (run_basis_val po h steps k param) (\<lambda>(reg, vel, cov, cov_vel). Inr vel)"

definition run_trajectories_val ::
  "string \<Rightarrow> nat \<Rightarrow> nat \<Rightarrow> nat \<Rightarrow> tensor4 \<Rightarrow> error + tensor4" where
  "run_trajectories_val po h steps k param =
     bnd (SceneDecoder_init po h steps k) (\<lambda>dec. trajectories_val dec param)"

text \<open>What the constructor establishes for the two basis parameterizations: the
  fields of the decoder, with one row per future step in both matrices.\<close>

definition basis_decoder :: "SceneDecoder \<Rightarrow> nat \<Rightarrow> nat \<Rightarrow> nat \<Rightarrow> bool" where
  "basis_decoder dec h steps k =
     (hidden_size dec = h \<and> num_modes dec = k \<and> future_steps dec = steps \<and>
      (param_out dec = ''bezier'' \<or> param_out dec = ''monomial'') \<and>
      N_ORDER dec = Some 7 \<and> reg_out dec = 40 \<and>
      (\<exists>mT mTp. mat_T dec = Some mT \<and> mat_Tp dec = Some mTp \<and>
         length mT = steps \<and> length mTp = steps))"

text \<open>A value of shape \<^verbatim>\<open>(K, A, N, C)\<close>.\<close>

definition has_shape4 :: "nat \<Rightarrow> nat \<Rightarrow> nat \<Rightarrow> nat \<Rightarrow> tensor4 \<Rightarrow> bool" where
  "has_shape4 k a n c param =
     (length param = k \<and>
      list_all (\<lambda>m. length m = a \<and>
        list_all (\<lambda>x. length x = n \<and> list_all (\<lambda>p. length p = c) x) m) param)"

text \<open>The curve that the rows of \<^verbatim>\<open>mat_T\<close> sample in the \<^verbatim>\<open>bezier\<close> branch: channel
  \<^verbatim>\<open>j\<close> of the Bezier curve of degree \<^verbatim>\<open>n\<close> with control points \<^verbatim>\<open>x\<close>, at time \<^verbatim>\<open>t\<close>.\<close>

definition bezier_curve :: "nat \<Rightarrow> tensor2 \<Rightarrow> nat \<Rightarrow> real \<Rightarrow> real" where
  "bezier_curve n x j t = (\<Sum>i<n + 1. coeff_T_bezier n i t * x ! i ! j)"

text \<open>The classification path. \<^verbatim>\<open>self.cls\<close> is a learned network from a vector of width
  \<^verbatim>\<open>hidden_size\<close> to one logit: a parameter \<open>head\<close> here. \<^verbatim>\<open>cls_embed\<close> has shape
  \<^verbatim>\<open>(K, 1, hidden_size)\<close>; \<^verbatim>\<open>self.cls(cls_embed).view(K, -1)\<close> has one row per mode.\<close>

definition cls_logits :: "(real list \<Rightarrow> real) \<Rightarrow> tensor3 \<Rightarrow> tensor2" where
  "cls_logits head cls_embed = map (\<lambda>m. concat (map (\<lambda>v. [head v]) m)) cls_embed"

text \<open>\<^verbatim>\<open>F.softmax(t, dim=1)\<close> on the rows of a matrix.\<close>

definition softmax :: "real list \<Rightarrow> real list" where
  "softmax xs = map (\<lambda>x. exp x / sum_list (map exp xs)) xs"

text \<open>\<^verbatim>\<open>cls = cls.permute(1, 0)\<close>, then \<^verbatim>\<open>F.softmax(cls * 1.0, dim=1)\<close>.\<close>

definition cls_softmax :: "tensor2 \<Rightarrow> tensor2" where
  "cls_softmax cls = map (\<lambda>row. softmax (map (\<lambda>x. x * 1.0) row)) (transpose cls)"

definition probabilities_val :: "(real list \<Rightarrow> real) \<Rightarrow> tensor3 \<Rightarrow> tensor2" where
  "probabilities_val head cls_embed = cls_softmax (cls_logits head cls_embed)"

text \<open>The context path of one scene, from the row \<^verbatim>\<open>ctx[idx]\<close> to the emitted
  probabilities. The learned networks are parameters: \<^verbatim>\<open>self.ctx_proj\<close> on a row,
  \<^verbatim>\<open>self.ctx_sat\<close> on the \<^verbatim>\<open>(K, 1, hidden_size)\<close> tensor of mode vectors, and \<^verbatim>\<open>self.cls\<close>
  from a vector to one logit.\<close>

record decoder_weights =
  ctx_proj_w :: "real list \<Rightarrow> real list"
  ctx_sat_w :: "tensor3 \<Rightarrow> tensor3"
  cls_w :: "real list \<Rightarrow> real"

text \<open>\<^verbatim>\<open>t.view(-1, K, hidden_size)\<close> for the one row \<^verbatim>\<open>t\<close> of width
  \<^verbatim>\<open>K * hidden_size\<close>: the \<^verbatim>\<open>K\<close> consecutive pieces of width \<^verbatim>\<open>hidden_size\<close>.\<close>

definition view_modes_val :: "nat \<Rightarrow> nat \<Rightarrow> real list \<Rightarrow> tensor2" where
  "view_modes_val k h row = map (\<lambda>i. take h (drop (i * h) row)) [0..<k]"

text \<open>\<^verbatim>\<open>cls_embed = self.ctx_sat(self.ctx_proj(_ctx).view(-1, K, hidden_size).permute(1, 0, 2))\<close>
  with \<^verbatim>\<open>_ctx = ctx[idx].unsqueeze(0)\<close>.\<close>

definition cls_embed_val :: "decoder_weights \<Rightarrow> nat \<Rightarrow> nat \<Rightarrow> real list \<Rightarrow> tensor3" where
  "cls_embed_val w k h ctx_row =
     ctx_sat_w w (map (\<lambda>v. [v]) (view_modes_val k h (ctx_proj_w w ctx_row)))"

text \<open>What the loop appends to \<^verbatim>\<open>res_cls\<close> for the scene.\<close>

definition scene_probabilities_val ::
  "decoder_weights \<Rightarrow> nat \<Rightarrow> nat \<Rightarrow> real list \<Rightarrow> tensor2" where
  "scene_probabilities_val w k h ctx_row =
     probabilities_val (cls_w w) (cls_embed_val w k h ctx_row)"

section \<open>Values: the memory and the edges of a fusion layer\<close>

text \<open>The learned sub-networks of a \<^verbatim>\<open>RelaFusionLayer\<close> act on the last axis; they are
  parameters of the value level.\<close>

record layer_weights =
  proj_memory :: "real list \<Rightarrow> real list"
  proj_edge :: "real list \<Rightarrow> real list"
  norm_edge :: "real list \<Rightarrow> real list"
  attend :: "tensor3 \<Rightarrow> tensor3 \<Rightarrow> tensor3"
  norm2 :: "real list \<Rightarrow> real list"
  norm3 :: "real list \<Rightarrow> real list"
  feed_forward :: "real list \<Rightarrow> real list"

definition vec_add :: "real list \<Rightarrow> real list \<Rightarrow> real list" where
  "vec_add a b = map2 (+) a b"

text \<open>\<^verbatim>\<open>_build_memory\<close>: \<^verbatim>\<open>src_x[i][j] = node[j]\<close>, \<^verbatim>\<open>tar_x[i][j] = node[i]\<close>,
  \<^verbatim>\<open>memory[i][j] = proj_memory(edge[i][j] ++ src_x[i][j] ++ tar_x[i][j])\<close>.\<close>

definition build_memory_val ::
  "layer_weights \<Rightarrow> RelaFusionLayer \<Rightarrow> tensor2 \<Rightarrow> tensor3 \<Rightarrow> tensor3 \<times> tensor3 \<times> tensor3" where
  "build_memory_val w l node edge =
     (let n_token = length node;
          src_x = replicate n_token node;
          tar_x = map (replicate n_token) node;
          memory = map2 (\<lambda>e_row (s_row, t_row).
                      map2 (\<lambda>e (s, t). proj_memory w (e @ s @ t)) e_row (zip s_row t_row))
                     edge (zip src_x tar_x);
          edge1 = (if update_edge l
                   then map2 (map2 (\<lambda>e m. norm_edge w (vec_add e (proj_edge w m)))) edge memory
                   else edge)
      in ([node], edge1, memory))"

text \<open>\<^verbatim>\<open>RelaFusionLayer.forward\<close> for more than one token (so that \<^verbatim>\<open>squeeze\<close> removes
  the leading axis only): the new nodes and the edges it returns.\<close>

definition RelaFusionLayer_forward_val ::
  "layer_weights \<Rightarrow> RelaFusionLayer \<Rightarrow> tensor2 \<Rightarrow> tensor3 \<Rightarrow> tensor2 \<times> tensor3" where
  "RelaFusionLayer_forward_val w l node edge =
     (case build_memory_val w l node edge of (x, edge1, memory) \<Rightarrow>
        let x_prime = attend w x memory;
            x2 = concat (map2 (map2 (\<lambda>a b. norm2 w (vec_add a b))) x x_prime);
            x3 = map (\<lambda>v. norm3 w (vec_add v (feed_forward w v))) x2
        in (x3, edge1))"


section \<open>Shapes: basic lemmas\<close>

lemma bnd_simps [simp]: "bnd (Inl e) f = Inl e" "bnd (Inr x) f = f x"
  by (simp_all add: bnd_def)

lemma lin_norm_relu_ok:
  "s \<noteq> [] \<Longrightarrow> last s = a \<Longrightarrow> lin_norm_relu a b s = Inr (butlast s @ [b])"
  by (simp add: lin_norm_relu_def Linear_def LayerNorm_def ReLU_def)

lemma lin_norm_relu_bad: "s = [] \<or> last s \<noteq> a \<Longrightarrow> lin_norm_relu a b s = Inl ShapeError"
  by (auto simp add: lin_norm_relu_def Linear_def LayerNorm_def ReLU_def)

lemma lin_norm_relu3 [simp]: "lin_norm_relu a b [x, y, a] = Inr [x, y, b]"
  by (simp add: lin_norm_relu_ok)

lemma lin_norm_relu2 [simp]: "lin_norm_relu a b [x, a] = Inr [x, b]"
  by (simp add: lin_norm_relu_ok)

lemma permute_021 [simp]: "permute [0, 2, Suc 0] [a, b, c] = Inr [a, c, b]"
  by (simp add: permute_def upt_rec)

lemma cat_last3: "cat [[a, b, c], [a, b, d]] (- 1) = Inr [a, b, c + d]"
  by (simp add: cat_def axis_def)

lemma add_same: "add s s = Inr s"
proof -
  have "broadcast_rev r r = Inr r" for r
    by (induction r) simp_all
  then show ?thesis by (simp add: add_def broadcast_def)
qed

section \<open>LaneNet: the shape of the result\<close>

lemma global_maxpool_aggre3:
  "0 < p \<Longrightarrow> 0 < h \<Longrightarrow> global_maxpool_aggre [l, p, h] = Inr [l, 1, h]"
  by (simp add: global_maxpool_aggre_def adaptive_max_pool1d_1_def)

lemma PointAggregateBlock_forward_shape:
  assumes "0 < p" "0 < h"
  shows "PointAggregateBlock_forward \<lparr>pab_hidden_size = h, aggre_out = ag\<rparr> [l, p, h]
    = Inr (if ag then squeeze [l, 1, h] else [l, p, h])"
  using assms
  by (simp add: PointAggregateBlock_forward_def pab_fc1_def pab_fc2_def global_maxpool_aggre3
      shape_at_def repeat_def cat_last3 add_same LayerNorm_def mult_2_right)

text \<open>For \<^verbatim>\<open>L\<close> lane segments of \<^verbatim>\<open>P > 0\<close> points, \<^verbatim>\<open>LaneNet.forward\<close> returns the
  squeezed \<^verbatim>\<open>(L, 1, hidden_size)\<close>: \<^verbatim>\<open>(L, hidden_size)\<close> unless \<^verbatim>\<open>L\<close> or \<^verbatim>\<open>hidden_size\<close>
  is 1.\<close>

lemma LaneNet_forward_shape:
  assumes "0 < p" "0 < h"
  shows "LaneNet_forward \<lparr>ln_in_size = f, ln_hidden_size = h\<rparr> [l, p, f]
    = Inr (squeeze [l, 1, h])"
  using assms
  by (simp add: LaneNet_forward_def LaneNet_aggre1_def LaneNet_aggre2_def
      PointAggregateBlock_forward_shape)

lemma LaneNet_forward_many:
  assumes "0 < p" "1 < h" "l \<noteq> 1"
  shows "LaneNet_forward \<lparr>ln_in_size = f, ln_hidden_size = h\<rparr> [l, p, f] = Inr [l, h]"
  using assms by (simp add: LaneNet_forward_shape squeeze_def)

text \<open>
  Claim C6, at the input the code gets wrong. The claim: for every \<^verbatim>\<open>L \<ge> 1\<close> the lane
  encoder maps \<^verbatim>\<open>(L, 10, F)\<close> to \<^verbatim>\<open>(L, hidden_size)\<close>, also for \<^verbatim>\<open>L = 1\<close>. For one lane
  segment of 10 points with 10 features and \<^verbatim>\<open>hidden_size = 128\<close> the code returns a
  tensor of shape \<^verbatim>\<open>(128,)\<close>, not \<^verbatim>\<open>(1, 128)\<close>: \<^verbatim>\<open>squeeze()\<close> drops the lane axis too.
\<close>

theorem LaneNet_forward_one_lane:
  "LaneNet_forward \<lparr>ln_in_size = 10, ln_hidden_size = 128\<rparr> [1, 10, 10] = Inr [128]"
  by code_simp

section \<open>SceneDecoder: failures of the forward pass\<close>

text \<open>
  Claim C3, at an input the code gets wrong. The claim: with \<^verbatim>\<open>param_out = 'none'\<close> the
  decoder's forward pass succeeds on every valid input. A decoder built with
  \<^verbatim>\<open>param_out = 'none'\<close>, \<^verbatim>\<open>hidden_size = 128\<close>, \<^verbatim>\<open>future_steps = 30\<close>, \<^verbatim>\<open>num_modes = 6\<close>
  and run on one scene of two actors raises \<^verbatim>\<open>AttributeError\<close>: the \<^verbatim>\<open>none\<close> branch
  reads \<^verbatim>\<open>self.N_ORDER\<close>, which the constructor sets for the other two branches only.
\<close>

theorem SceneDecoder_forward_none_fails:
  "run_decoder ''none'' 128 30 6 [1, 128] [2, 128] [[0, 1]] [1, 128] [1, 20]
    = Inl AttributeError"
  by code_simp

text \<open>The failure does not depend on the input: a decoder whose \<^verbatim>\<open>N_ORDER\<close> is unset
  fails in the \<^verbatim>\<open>none\<close> branch of every scene, so the forward pass of a decoder built
  with \<^verbatim>\<open>param_out = 'none'\<close> returns only for an empty batch.\<close>

lemma decode_scene_none_fails:
  assumes "param_out dec = ''none''" "N_ORDER dec = None"
  shows "\<exists>e. decode_scene dec ctx actors tgt idx a_idcs = Inl e"
proof -
  have bn: "branch_none dec emb \<noteq> Inr r" for emb r
    using assms(2)
    by (cases "reg_head dec emb") (simp_all add: branch_none_def param_view_def attr_def)
  have "decode_scene dec ctx actors tgt idx a_idcs \<noteq> Inr r" for r
    unfolding decode_scene_def using assms(1)
    by (auto simp add: bnd_def bn split: sum.splits)
  then show ?thesis
    by (metis old.sum.exhaust)
qed

lemma SceneDecoder_forward_none_never_returns:
  assumes "actor_idcs \<noteq> []"
  shows "\<exists>e. run_decoder ''none'' h steps k ctx actors actor_idcs tgt_feat tgt_rpes = Inl e"
proof (cases "SceneDecoder_init ''none'' h steps k")
  case (Inl e)
  then show ?thesis by (simp add: run_decoder_def)
next
  case (Inr dec)
  then have d: "param_out dec = ''none''" "N_ORDER dec = None"
    by (auto simp add: SceneDecoder_init_def bnd_def split: sum.splits if_splits)
  from assms obtain a rest where ai: "actor_idcs = a # rest" by (cases actor_idcs) auto
  have loop: "decode_scenes dec ctx actors tgt 0 actor_idcs \<noteq> Inr r" for tgt r
    using decode_scene_none_fails [OF d, of ctx actors tgt 0 a] by (auto simp add: ai)
  have "SceneDecoder_forward dec ctx actors actor_idcs tgt_feat tgt_rpes \<noteq> Inr r" for r
    unfolding SceneDecoder_forward_def
    by (auto simp add: bnd_def loop split: sum.splits)
  then have "\<exists>e. SceneDecoder_forward dec ctx actors actor_idcs tgt_feat tgt_rpes = Inl e"
    by (metis old.sum.exhaust)
  then show ?thesis
    by (simp add: run_decoder_def Inr)
qed

text \<open>
  Claim C4, at the inputs the code gets wrong. The claim: a \<^verbatim>\<open>TGT_RPE\<close> tensor with 11
  features per target is accepted by the decoder's RPE projection. Whatever the decoder
  and the other arguments, the forward pass on a \<^verbatim>\<open>TGT_RPE\<close> of shape \<^verbatim>\<open>(n, 11)\<close> raises
  a shape error: \<^verbatim>\<open>proj_rpe\<close> starts with \<^verbatim>\<open>nn.Linear(5 * 2 * 2, hidden_size)\<close>.
\<close>

theorem SceneDecoder_forward_rpe11:
  "SceneDecoder_forward dec ctx actors actor_idcs tgt_feat [n, 11] = Inl ShapeError"
  by (simp add: SceneDecoder_forward_def proj_rpe_def lin_norm_relu_bad)

lemma proj_rpe_20: "proj_rpe dec [n, 20] = Inr [n, hidden_size dec]"
  by (simp add: proj_rpe_def)


section \<open>RelaFusionNet: which layers update the edges\<close>

lemma init_layers_nth:
  "init_layers mk js = Inr ls \<Longrightarrow>
     length ls = length js \<and> (\<forall>k<length js. mk (js ! k) = Inr (ls ! k))"
proof (induction js arbitrary: ls)
  case Nil
  then show ?case by simp
next
  case (Cons j js)
  from Cons.prems obtain l rest where l: "mk j = Inr l" and rest: "init_layers mk js = Inr rest"
    and ls: "ls = l # rest"
    by (auto simp add: bnd_def split: sum.splits)
  from Cons.IH [OF rest] have "length rest = length js"
    and "\<forall>k<length js. mk (js ! k) = Inr (rest ! k)" by simp_all
  then show ?case using l ls by (auto simp add: nth_Cons split: nat.splits)
qed

lemma RelaFusionLayer_init_flag:
  "RelaFusionLayer_init de dm df nh flag = Inr l \<Longrightarrow> update_edge l = flag"
  by (auto simp add: RelaFusionLayer_init_def bnd_def split: sum.splits)

lemma RelaFusionNet_init_flags:
  assumes "RelaFusionNet_init dm de nh n_layer ue = Inr layers"
  shows "length layers = n_layer"
    and "i < n_layer \<Longrightarrow> update_edge (layers ! i) = need_update_edge n_layer ue i"
proof -
  from init_layers_nth [OF assms [unfolded RelaFusionNet_init_def]]
  have len: "length layers = n_layer"
    and nth: "\<forall>k<n_layer. RelaFusionLayer_init de dm (dm * 2) nh
        (need_update_edge n_layer ue ([0..<n_layer] ! k)) = Inr (layers ! k)"
    by simp_all
  show "length layers = n_layer" by (rule len)
  show "update_edge (layers ! i) = need_update_edge n_layer ue i" if "i < n_layer"
    using nth that RelaFusionLayer_init_flag by fastforce
qed

lemma forward_val_edge:
  "snd (RelaFusionLayer_forward_val w l node edge) = fst (snd (build_memory_val w l node edge))"
  by (simp add: RelaFusionLayer_forward_val_def Let_def split: prod.splits)

lemma build_memory_val_keep:
  "\<not> update_edge l \<Longrightarrow> fst (snd (build_memory_val w l node edge)) = edge"
  by (simp add: build_memory_val_def Let_def)

lemma build_memory_val_memory:
  assumes "length node = n" "length edge = n" "list_all (\<lambda>row. length row = n) edge"
    "a < n" "b < n"
  shows "snd (snd (build_memory_val w l node edge)) ! a ! b
    = proj_memory w (edge ! a ! b @ node ! b @ node ! a)"
proof -
  have row: "length (edge ! a) = n"
    using assms by (simp add: list_all_length)
  show ?thesis
    using assms row by (simp add: build_memory_val_def Let_def)
qed

lemma build_memory_val_update:
  assumes "update_edge l" "length node = n" "length edge = n"
    "list_all (\<lambda>row. length row = n) edge" "a < n" "b < n"
  shows "fst (snd (build_memory_val w l node edge)) ! a ! b
    = norm_edge w (vec_add (edge ! a ! b)
        (proj_edge w (proj_memory w (edge ! a ! b @ node ! b @ node ! a))))"
proof -
  have row: "length (edge ! a) = n"
    using assms by (simp add: list_all_length)
  show ?thesis
    using assms row by (simp add: build_memory_val_def Let_def)
qed

text \<open>
  Claim C9. The edge update is disabled on the last of the stacked layers and only
  there. For the layers that \<^verbatim>\<open>RelaFusionNet.__init__\<close> builds: there are \<^verbatim>\<open>n_layer\<close> of
  them; the last one returns the edge tensor it was given; and when \<^verbatim>\<open>update_edge\<close> is
  configured true, every earlier layer \<^verbatim>\<open>i\<close>, given \<^verbatim>\<open>N\<close> nodes and \<^verbatim>\<open>N \<times> N\<close> edges,
  returns at \<^verbatim>\<open>(a, b)\<close> the normalized residual
  \<^verbatim>\<open>norm_edge(edge[a][b] + proj_edge(memory[a][b]))\<close>, where \<^verbatim>\<open>memory[a][b]\<close> is the
  projection of \<^verbatim>\<open>edge[a][b]\<close>, \<^verbatim>\<open>node[b]\<close> and \<^verbatim>\<open>node[a]\<close> concatenated.
\<close>

theorem RelaFusionNet_edge_update:
  assumes init: "RelaFusionNet_init dm de nh n_layer ue = Inr layers"
  shows "length layers = n_layer \<and>
    (0 < n_layer \<longrightarrow>
       snd (RelaFusionLayer_forward_val w (layers ! (n_layer - 1)) node edge) = edge) \<and>
    (\<forall>i a b. ue \<and> i + 1 < n_layer \<and> length node = length edge \<and>
         list_all (\<lambda>row. length row = length edge) edge \<and>
         a < length edge \<and> b < length edge \<longrightarrow>
       snd (RelaFusionLayer_forward_val w (layers ! i) node edge) ! a ! b
         = norm_edge w (vec_add (edge ! a ! b)
             (proj_edge w (proj_memory w (edge ! a ! b @ node ! b @ node ! a)))))"
proof (intro conjI impI allI)
  show "length layers = n_layer"
    by (rule RelaFusionNet_init_flags(1) [OF init])
next
  assume pos: "0 < n_layer"
  then have "update_edge (layers ! (n_layer - 1)) = need_update_edge n_layer ue (n_layer - 1)"
    by (intro RelaFusionNet_init_flags(2) [OF init]) simp
  with pos have "\<not> update_edge (layers ! (n_layer - 1))"
    by (simp add: need_update_edge_def of_nat_diff)
  then show "snd (RelaFusionLayer_forward_val w (layers ! (n_layer - 1)) node edge) = edge"
    by (simp add: forward_val_edge build_memory_val_keep)
next
  fix i a b
  assume h: "ue \<and> i + 1 < n_layer \<and> length node = length edge \<and>
    list_all (\<lambda>row. length row = length edge) edge \<and> a < length edge \<and> b < length edge"
  then have "update_edge (layers ! i) = need_update_edge n_layer ue i"
    by (intro RelaFusionNet_init_flags(2) [OF init]) simp
  with h have "update_edge (layers ! i)"
    by (auto simp add: need_update_edge_def)
  then show "snd (RelaFusionLayer_forward_val w (layers ! i) node edge) ! a ! b
         = norm_edge w (vec_add (edge ! a ! b)
             (proj_edge w (proj_memory w (edge ! a ! b @ node ! b @ node ! a))))"
    using h by (simp add: forward_val_edge build_memory_val_update [where n = "length edge"])
qed

theorem RelaFusionNet_edge_update_witness:
  "RelaFusionNet_init 2 1 1 2 True
     = Inr [\<lparr>d_edge = 1, d_model = 2, d_ffn = 4, n_head = 1, update_edge = True\<rparr>,
            \<lparr>d_edge = 1, d_model = 2, d_ffn = 4, n_head = 1, update_edge = False\<rparr>] \<and>
   snd (RelaFusionLayer_forward_val
          \<lparr>proj_memory = (\<lambda>v. [sum_list v, 0]), proj_edge = (\<lambda>m. [2 * hd m]),
           norm_edge = map ((+) 1), attend = (\<lambda>x m. x), norm2 = id, norm3 = id,
           feed_forward = id\<rparr>
          \<lparr>d_edge = 1, d_model = 2, d_ffn = 4, n_head = 1, update_edge = False\<rparr>
          [[1, 2], [3, 4]] [[[10], [20]], [[30], [40]]]) = [[[10], [20]], [[30], [40]]] \<and>
   snd (RelaFusionLayer_forward_val
          \<lparr>proj_memory = (\<lambda>v. [sum_list v, 0]), proj_edge = (\<lambda>m. [2 * hd m]),
           norm_edge = map ((+) 1), attend = (\<lambda>x m. x), norm2 = id, norm3 = id,
           feed_forward = id\<rparr>
          \<lparr>d_edge = 1, d_model = 2, d_ffn = 4, n_head = 1, update_edge = True\<rparr>
          [[1, 2], [3, 4]] [[[10], [20]], [[30], [40]]]) ! 0 ! 1 = [81]"
proof -
  let ?l0 = "\<lparr>d_edge = 1, d_model = 2, d_ffn = 4, n_head = 1, update_edge = True\<rparr>"
  let ?l1 = "\<lparr>d_edge = 1, d_model = 2, d_ffn = 4, n_head = 1, update_edge = False\<rparr>"
  let ?w = "\<lparr>proj_memory = (\<lambda>v. [sum_list v, 0]), proj_edge = (\<lambda>m. [2 * hd m]),
           norm_edge = map ((+) 1), attend = (\<lambda>x m. x), norm2 = id, norm3 = id,
           feed_forward = id\<rparr> :: layer_weights"
  let ?n = "[[1, 2], [3, 4]] :: tensor2"
  let ?e = "[[[10], [20]], [[30], [40]]] :: tensor3"
  have init: "RelaFusionNet_init 2 1 1 2 True = Inr [?l0, ?l1]"
    by code_simp
  note inst = RelaFusionNet_edge_update [OF init, of ?w ?n ?e]
  from inst have last: "snd (RelaFusionLayer_forward_val ?w ?l1 ?n ?e) = ?e"
    by simp
  from inst have "snd (RelaFusionLayer_forward_val ?w ([?l0, ?l1] ! 0) ?n ?e) ! 0 ! 1
      = norm_edge ?w (vec_add (?e ! 0 ! 1)
          (proj_edge ?w (proj_memory ?w (?e ! 0 ! 1 @ ?n ! 1 @ ?n ! 0))))"
    by (elim conjE allE [of _ 0] allE [of _ 1] impE) simp_all
  then have first: "snd (RelaFusionLayer_forward_val ?w ?l0 ?n ?e) ! 0 ! 1 = [81]"
    by (simp add: vec_add_def)
  from init last first show ?thesis by simp
qed

section \<open>SceneDecoder: the mode probabilities\<close>

lemma column_heads:
  "concat (map ((\<lambda>ys. case ys of [] \<Rightarrow> [] | h # t \<Rightarrow> [h]) \<circ> (\<lambda>x. [f x])) xs) = map f xs"
  by (induction xs) simp_all

lemma column_tails:
  "concat (map ((\<lambda>ys. case ys of [] \<Rightarrow> [] | h # t \<Rightarrow> [t]) \<circ> (\<lambda>x. [f x])) xs)
    = replicate (length xs) []"
  by (induction xs) simp_all

lemma transpose_empties: "transpose (replicate n []) = []"
  by (induction n) simp_all

lemma transpose_column:
  assumes ne: "xs \<noteq> []"
  shows "transpose (map (\<lambda>x. [f x]) xs) = [map f xs]"
proof (cases xs)
  case Nil
  with ne show ?thesis by simp
next
  case (Cons x rest)
  then show ?thesis
    by (simp add: column_heads column_tails transpose_empties)
qed

lemma cls_logits_column:
  assumes "list_all (\<lambda>m. length m = 1) cls_embed"
  shows "cls_logits head cls_embed = map (\<lambda>m. [head (hd m)]) cls_embed"
proof -
  have "concat (map (\<lambda>v. [head v]) m) = [head (hd m)]" if "length m = 1" for m
    using that by (cases m) simp_all
  then show ?thesis
    using assms by (simp add: cls_logits_def list_all_iff)
qed

lemma sum_list_exp_pos: "xs \<noteq> [] \<Longrightarrow> 0 < sum_list (map exp (xs :: real list))"
proof (induction xs)
  case Nil
  then show ?case by simp
next
  case (Cons a xs)
  show ?case
  proof (cases "xs = []")
    case True
    then show ?thesis by simp
  next
    case False
    with Cons.IH have "0 < sum_list (map exp xs)" by simp
    then show ?thesis by (simp add: add_pos_pos)
  qed
qed

lemma sum_list_divide: "sum_list (map (\<lambda>x. f x / (c::real)) xs) = sum_list (map f xs) / c"
  by (induction xs) (simp_all add: add_divide_distrib)

lemma softmax_sum: "xs \<noteq> [] \<Longrightarrow> sum_list (softmax xs) = 1"
  using sum_list_exp_pos [of xs] by (simp add: softmax_def sum_list_divide)

lemma softmax_length: "length (softmax xs) = length xs"
  by (simp add: softmax_def)

lemma probabilities_val_formula:
  assumes "cls_embed \<noteq> []" and "list_all (\<lambda>m. length m = 1) cls_embed"
  shows "probabilities_val head cls_embed
    = [map (\<lambda>m. exp (head (hd m)) / (\<Sum>n\<leftarrow>cls_embed. exp (head (hd n)))) cls_embed]"
  using assms
  by (simp add: probabilities_val_def cls_softmax_def cls_logits_column transpose_column
      softmax_def comp_def)

text \<open>
  Claim C8. For \<^verbatim>\<open>K \<ge> 1\<close> modes the probabilities emitted for a scene are one row of
  \<^verbatim>\<open>K\<close> numbers: entry \<^verbatim>\<open>k\<close> is \<^verbatim>\<open>exp(l[k])\<close> divided by the sum of all \<^verbatim>\<open>exp(l[j])\<close>,
  where \<^verbatim>\<open>l[k]\<close> is the logit that the classification head gives on the \<^verbatim>\<open>k\<close>-th
  context-mode vector of \<^verbatim>\<open>cls_embed\<close> (the softmax at temperature 1.0). The row sums to
  1 over the reals, so also within \<^verbatim>\<open>1e-5\<close> of 1.
\<close>

theorem probabilities_are_softmax:
  assumes "0 < k"
    and "length (cls_embed_val w k h ctx_row) = k"
    and "list_all (\<lambda>m. length m = 1) (cls_embed_val w k h ctx_row)"
  shows "scene_probabilities_val w k h ctx_row
      = [map (\<lambda>m. exp (cls_w w (hd m))
                  / (\<Sum>n\<leftarrow>cls_embed_val w k h ctx_row. exp (cls_w w (hd n))))
           (cls_embed_val w k h ctx_row)] \<and>
    map length (scene_probabilities_val w k h ctx_row) = [k] \<and>
    map sum_list (scene_probabilities_val w k h ctx_row) = [1] \<and>
    list_all (\<lambda>row. \<bar>sum_list row - 1\<bar> \<le> 1 / 100000)
      (scene_probabilities_val w k h ctx_row)"
proof -
  let ?e = "cls_embed_val w k h ctx_row"
  have ne: "?e \<noteq> []" using assms(1,2) by auto
  have f: "scene_probabilities_val w k h ctx_row
      = [map (\<lambda>m. exp (cls_w w (hd m)) / (\<Sum>n\<leftarrow>?e. exp (cls_w w (hd n)))) ?e]"
    unfolding scene_probabilities_val_def
    by (rule probabilities_val_formula [OF ne assms(3)])
  have s: "scene_probabilities_val w k h ctx_row
      = [softmax (map (\<lambda>m. cls_w w (hd m)) ?e)]"
    unfolding f by (simp add: softmax_def comp_def)
  have one: "sum_list (softmax (map (\<lambda>m. cls_w w (hd m)) ?e)) = 1"
    using ne by (intro softmax_sum) simp
  show ?thesis
    using f one assms(2) by (simp add: s softmax_length)
qed

theorem probabilities_are_softmax_witness:
  "scene_probabilities_val
     \<lparr>ctx_proj_w = (\<lambda>v. v @ map ((*) 3) v), ctx_sat_w = map (map (map ((*) 2))),
      cls_w = (\<lambda>v. ln (hd v))\<rparr> 2 4 [1, 0, 0, 0]
   = [[1 / 4, 3 / 4]] \<and>
   map sum_list (scene_probabilities_val
     \<lparr>ctx_proj_w = (\<lambda>v. v @ map ((*) 3) v), ctx_sat_w = map (map (map ((*) 2))),
      cls_w = (\<lambda>v. ln (hd v))\<rparr> 2 4 [1, 0, 0, 0]) = [1]"
proof -
  let ?w = "\<lparr>ctx_proj_w = (\<lambda>v. v @ map ((*) 3) v), ctx_sat_w = map (map (map ((*) 2))),
      cls_w = (\<lambda>v. ln (hd v))\<rparr>"
  have e: "cls_embed_val ?w 2 4 [1, 0, 0, 0] = [[[2, 0, 0, 0]], [[6, 0, 0, 0]]]"
    by (simp add: cls_embed_val_def view_modes_val_def upt_rec)
  from probabilities_are_softmax [of 2 ?w 4 "[1, 0, 0, 0]"] show ?thesis
    by (simp add: e)
qed

section \<open>The basis matrices, row by row\<close>

lemma linspace_length: "length (linspace a b n) = n"
  by (simp add: linspace_def)

lemma linspace_unit_nth:
  assumes "k < n"
  shows "linspace 0 1 n ! k = (if n = 1 then 0 else real k / real (n - 1))"
proof (cases "n = 1")
  case True
  then show ?thesis using assms by (simp add: linspace_def)
next
  case False
  with assms have n: "1 < n" by simp
  show ?thesis
  proof (cases "k = n - 1")
    case True
    then show ?thesis using n by (simp add: linspace_def)
  next
    case False
    then show ?thesis using n assms by (simp add: linspace_def)
  qed
qed

lemma linspace_first: "0 < n \<Longrightarrow> linspace 0 1 n ! 0 = 0"
  by (simp add: linspace_unit_nth)

lemma linspace_last: "1 < n \<Longrightarrow> linspace 0 1 n ! (n - 1) = 1"
  by (simp add: linspace_unit_nth)

lemma heads_of_rows:
  "concat (map ((\<lambda>ys. case ys of [] \<Rightarrow> [] | h # t \<Rightarrow> [h]) \<circ> (\<lambda>i. f i # g i)) js) = map f js"
  by (induction js) simp_all

lemma tails_of_rows:
  "concat (map ((\<lambda>ys. case ys of [] \<Rightarrow> [] | h # t \<Rightarrow> [t]) \<circ> (\<lambda>i. f i # g i)) js) = map g js"
  by (induction js) simp_all

lemma transpose_no_columns: "transpose (map (\<lambda>i. []) js) = []"
  by (induction js) simp_all

lemma transpose_columns:
  assumes "js \<noteq> []"
  shows "transpose (map (\<lambda>i. map (f i) ts) js) = map (\<lambda>t. map (\<lambda>i. f i t) js) ts"
proof (induction ts)
  case Nil
  show ?case by (simp add: transpose_no_columns)
next
  case (Cons t ts)
  from assms obtain j rest where js: "js = j # rest" by (cases js) auto
  have "transpose (map (\<lambda>i. map (f i) (t # ts)) js)
      = map (\<lambda>i. f i t) js # transpose (map (\<lambda>i. map (f i) ts) js)"
    by (simp add: js heads_of_rows tails_of_rows)
  then show ?case using Cons.IH by simp
qed

lemma get_T_matrix_bezier_rows:
  "get_T_matrix_bezier n steps
     = map (\<lambda>t. map (\<lambda>i. coeff_T_bezier n i t) [0..<n + 1]) (linspace 0 1 steps)"
  unfolding get_T_matrix_bezier_def by (rule transpose_columns) simp

lemma get_T_matrix_monomial_rows:
  "get_T_matrix_monomial n steps
     = map (\<lambda>t. map (\<lambda>i. coeff_T_monomial i t) [0..<n + 1]) (linspace 0 1 steps)"
  unfolding get_T_matrix_monomial_def by (rule transpose_columns) simp

lemma get_Tp_matrix_bezier_rows:
  "0 < n \<Longrightarrow> get_Tp_matrix_bezier n steps
     = map (\<lambda>t. map (\<lambda>i. coeff_Tp_bezier n i t) [0..<n]) (linspace 0 1 steps)"
  unfolding get_Tp_matrix_bezier_def by (rule transpose_columns) simp

lemma get_Tp_matrix_monomial_rows:
  "0 < n \<Longrightarrow> get_Tp_matrix_monomial n steps
     = map (\<lambda>t. map (\<lambda>i. coeff_Tp_monomial i t) [0..<n]) (linspace 0 1 steps)"
  unfolding get_Tp_matrix_monomial_def by (rule transpose_columns) simp

lemma sum_list_map2_upt:
  assumes "length x = m"
  shows "sum_list (map2 (\<lambda>a p. a * p ! j) (map g [0..<m]) x) = (\<Sum>i<m. g i * x ! i ! j :: real)"
proof -
  have "sum_list (map2 (\<lambda>a p. a * p ! j) (map g [0..<m]) x)
      = (\<Sum>i = 0..<m. map2 (\<lambda>a p. a * p ! j) (map g [0..<m]) x ! i)"
    using assms by (simp add: sum_list_sum_nth)
  also have "\<dots> = (\<Sum>i = 0..<m. g i * x ! i ! j)"
    using assms by (intro sum.cong) simp_all
  finally show ?thesis by (simp add: lessThan_atLeast0)
qed

lemma matmul_val_nth:
  assumes "t < length ts" "length x = m" "j < channels x"
  shows "matmul_val (map (\<lambda>t. map (\<lambda>i. f i t) [0..<m]) ts) x ! t ! j
    = (\<Sum>i<m. f i (ts ! t) * x ! i ! j)"
  using assms by (simp add: matmul_val_def sum_list_map2_upt)

lemma matmul_val_row_length:
  "t < length m \<Longrightarrow> length (matmul_val m x ! t) = channels x"
  by (simp add: matmul_val_def)

lemma matmul_val_length: "length (matmul_val m x) = length m"
  by (simp add: matmul_val_def)

section \<open>The derivative of the Bezier curve\<close>

lemma coeff_Tp_bezier_eq:
  "coeff_Tp_bezier n i t = real n * coeff_T_bezier (n - 1) i t"
  by (simp add: coeff_Tp_bezier_def coeff_T_bezier_def)

lemma coeff_T_bezier_deriv:
  assumes "i \<le> n"
  shows "((\<lambda>t. coeff_T_bezier n i t) has_real_derivative
      ((if i = 0 then 0 else real n * coeff_T_bezier (n - 1) (i - 1) t)
        - real n * coeff_T_bezier (n - 1) i t)) (at t)"
proof -
  have d: "((\<lambda>t. coeff_T_bezier n i t) has_real_derivative
      real (n choose i) * (real (n - i) * (1 - t) ^ (n - i - 1) * (- 1) * t ^ i
        + (1 - t) ^ (n - i) * (real i * t ^ (i - 1)))) (at t)"
    unfolding coeff_T_bezier_def
    by (auto intro!: derivative_eq_intros simp add: algebra_simps)
  have a: "real (n choose i) * real (n - i) = real n * real ((n - 1) choose i)"
    using binomial_absorb_comp [of n i] by (metis of_nat_mult mult.commute)
  have b: "real (n choose i) * real i = real n * real ((n - 1) choose (i - 1))" if "0 < i"
  proof -
    from that assms obtain i' n' where i: "i = Suc i'" and n: "n = Suc n'"
      by (cases i; cases n) auto
    have "Suc i' * (Suc n' choose Suc i') = Suc n' * (n' choose i')"
      by (rule Suc_times_binomial)
    then have "real (Suc i') * real (Suc n' choose Suc i') = real (Suc n') * real (n' choose i')"
      by (metis of_nat_mult)
    then show ?thesis unfolding i n by (simp only: diff_Suc_1 mult.commute)
  qed
  have e: "real (n choose i) * (real (n - i) * (1 - t) ^ (n - i - 1) * (- 1) * t ^ i
        + (1 - t) ^ (n - i) * (real i * t ^ (i - 1)))
      = (if i = 0 then 0 else real n * coeff_T_bezier (n - 1) (i - 1) t)
        - real n * coeff_T_bezier (n - 1) i t"
  proof (cases "i = 0")
    case True
    then show ?thesis using a by (simp add: coeff_T_bezier_def algebra_simps)
  next
    case False
    then have pos: "0 < i" by simp
    have ex: "n - Suc (i - Suc 0) = n - i" using pos assms by simp
    have "real (n choose i) * (real (n - i) * (1 - t) ^ (n - i - 1) * (- 1) * t ^ i
        + (1 - t) ^ (n - i) * (real i * t ^ (i - 1)))
      = (real (n choose i) * real i) * ((1 - t) ^ (n - i) * t ^ (i - 1))
        - (real (n choose i) * real (n - i)) * ((1 - t) ^ (n - i - 1) * t ^ i)"
      by (simp add: algebra_simps)
    also have "\<dots> = real n * real ((n - 1) choose (i - 1)) * ((1 - t) ^ (n - i) * t ^ (i - 1))
        - real n * real ((n - 1) choose i) * ((1 - t) ^ (n - i - 1) * t ^ i)"
      by (simp only: a b [OF pos])
    also have "\<dots> = real n * coeff_T_bezier (n - 1) (i - 1) t
        - real n * coeff_T_bezier (n - 1) i t"
      by (simp add: coeff_T_bezier_def ex algebra_simps)
    finally show ?thesis using False by simp
  qed
  from d show ?thesis unfolding e .
qed


lemma coeff_T_bezier_beyond: "real n * coeff_T_bezier (n - 1) n t = 0"
  by (cases n) (simp_all add: coeff_T_bezier_def)

lemma bezier_curve_deriv:
  "(bezier_curve n x j has_real_derivative
      (\<Sum>i<n. coeff_Tp_bezier n i t * (x ! (i + 1) ! j - x ! i ! j))) (at t)"
proof -
  let ?d = "\<lambda>i. (if i = 0 then 0 else real n * coeff_T_bezier (n - 1) (i - 1) t)
        - real n * coeff_T_bezier (n - 1) i t"
  have "((\<lambda>t. \<Sum>i<n + 1. coeff_T_bezier n i t * x ! i ! j) has_real_derivative
      (\<Sum>i<n + 1. ?d i * x ! i ! j)) (at t)"
    by (intro DERIV_sum DERIV_cmult_right coeff_T_bezier_deriv) simp
  moreover have "(\<Sum>i<n + 1. ?d i * x ! i ! j)
      = (\<Sum>i<n. coeff_Tp_bezier n i t * (x ! (i + 1) ! j - x ! i ! j))"
  proof -
    have "(\<Sum>i<n + 1. ?d i * x ! i ! j)
        = (\<Sum>i<Suc n. (if i = 0 then 0 else real n * coeff_T_bezier (n - 1) (i - 1) t) * x ! i ! j)
          - (\<Sum>i<Suc n. real n * coeff_T_bezier (n - 1) i t * x ! i ! j)"
      by (simp add: left_diff_distrib sum_subtractf)
    also have "(\<Sum>i<Suc n. (if i = 0 then 0 else real n * coeff_T_bezier (n - 1) (i - 1) t) * x ! i ! j)
        = (\<Sum>i<n. real n * coeff_T_bezier (n - 1) i t * x ! (i + 1) ! j)"
      by (subst sum.lessThan_Suc_shift) simp
    also have "(\<Sum>i<Suc n. real n * coeff_T_bezier (n - 1) i t * x ! i ! j)
        = (\<Sum>i<n. real n * coeff_T_bezier (n - 1) i t * x ! i ! j)"
      using coeff_T_bezier_beyond [of n t] by simp
    finally show ?thesis
      by (simp add: coeff_Tp_bezier_eq right_diff_distrib sum_subtractf)
  qed
  ultimately show ?thesis
    unfolding bezier_curve_def by simp
qed

section \<open>Positions at the first and at the last future step\<close>

lemma linspace_last': "Suc 0 < n \<Longrightarrow> linspace 0 1 n ! (n - Suc 0) = 1"
  using linspace_last [of n] by simp

lemma coeff_T_bezier_at_0: "coeff_T_bezier n i 0 = (if i = 0 then 1 else 0)"
  by (simp add: coeff_T_bezier_def)

lemma coeff_T_bezier_at_1: "i \<le> n \<Longrightarrow> coeff_T_bezier n i 1 = (if i = n then 1 else 0)"
  by (simp add: coeff_T_bezier_def)

lemma coeff_T_monomial_at_0: "coeff_T_monomial i 0 = (if i = 0 then 1 else 0)"
  by (simp add: coeff_T_monomial_def)

lemma coeff_T_monomial_at_1: "coeff_T_monomial i 1 = 1"
  by (simp add: coeff_T_monomial_def)

lemma channels_rect:
  "x \<noteq> [] \<Longrightarrow> list_all (\<lambda>p. length p = c) x \<Longrightarrow> channels x = c"
  by (cases x) (simp_all add: channels_def)

lemma pick_one: "(k::nat) < m \<Longrightarrow> (\<Sum>i<m. (if i = k then 1 else 0) * f i) = (f k :: real)"
proof -
  assume k: "k < m"
  have "(\<Sum>i<m. (if i = k then 1 else 0) * f i) = (\<Sum>i\<in>{..<m}. if i = k then f i else 0)"
    by (intro sum.cong) simp_all
  also have "\<dots> = f k" using k by (simp add: sum.delta)
  finally show ?thesis .
qed

lemma pick_first: "(\<Sum>i<Suc m. (if i = 0 then 1 else 0) * f i) = (f 0 :: real)"
  using pick_one [of 0 "Suc m" f] by simp

lemma pick_last: "(\<Sum>i<Suc m. (if i = m then 1 else 0) * f i) = (f m :: real)"
  using pick_one [of m "Suc m" f] by simp

lemma matmul_val_row:
  assumes "t < length ts" "length x = m" "0 < m" "list_all (\<lambda>p. length p = c) x"
  shows "matmul_val (map (\<lambda>t. map (\<lambda>i. f i t) [0..<m]) ts) x ! t
    = map (\<lambda>j. \<Sum>i<m. f i (ts ! t) * x ! i ! j) [0..<c]"
proof -
  have ch: "channels x = c" using assms by (intro channels_rect) auto
  show ?thesis
    using assms(1,2) by (simp add: matmul_val_def sum_list_map2_upt ch)
qed

lemma row_of_nths: "length p = c \<Longrightarrow> map (\<lambda>j. p ! j) [0..<c] = p"
  by (auto simp add: list_eq_iff_nth_eq)

lemma bezier_first_row:
  assumes "0 < steps" "length x = n + 1" "list_all (\<lambda>p. length p = c) x"
  shows "matmul_val (get_T_matrix_bezier n steps) x ! 0 = x ! 0"
proof -
  have len0: "length (x ! 0) = c" using assms by (simp add: list_all_length)
  have "matmul_val (get_T_matrix_bezier n steps) x ! 0
      = map (\<lambda>j. \<Sum>i<n + 1. coeff_T_bezier n i (linspace 0 1 steps ! 0) * x ! i ! j) [0..<c]"
    unfolding get_T_matrix_bezier_rows
    using assms by (intro matmul_val_row) (simp_all add: linspace_length)
  also have "\<dots> = map (\<lambda>j. x ! 0 ! j) [0..<c]"
    using assms(1)
    by (simp add: linspace_first coeff_T_bezier_at_0 pick_first del: sum.lessThan_Suc)
  finally show ?thesis by (simp add: row_of_nths len0)
qed

lemma bezier_last_row:
  assumes "1 < steps" "length x = n + 1" "list_all (\<lambda>p. length p = c) x"
  shows "matmul_val (get_T_matrix_bezier n steps) x ! (steps - 1) = x ! n"
proof -
  have lenn: "length (x ! n) = c" using assms by (simp add: list_all_length)
  have "matmul_val (get_T_matrix_bezier n steps) x ! (steps - 1)
      = map (\<lambda>j. \<Sum>i<n + 1. coeff_T_bezier n i (linspace 0 1 steps ! (steps - 1)) * x ! i ! j)
          [0..<c]"
    unfolding get_T_matrix_bezier_rows
    using assms by (intro matmul_val_row) (simp_all add: linspace_length)
  also have "\<dots> = map (\<lambda>j. \<Sum>i<Suc n. (if i = n then 1 else 0) * x ! i ! j) [0..<c]"
  proof -
    have "(\<Sum>i<Suc n. coeff_T_bezier n i 1 * x ! i ! j)
        = (\<Sum>i<Suc n. (if i = n then 1 else 0) * x ! i ! j)" for j
      by (intro sum.cong) (simp_all add: coeff_T_bezier_at_1)
    then show ?thesis
      using assms(1) by (simp add: linspace_last' del: sum.lessThan_Suc)
  qed
  also have "\<dots> = map (\<lambda>j. x ! n ! j) [0..<c]"
    by (simp only: pick_last)
  finally show ?thesis by (simp add: row_of_nths lenn)
qed

lemma monomial_first_row:
  assumes "0 < steps" "length x = n + 1" "list_all (\<lambda>p. length p = c) x"
  shows "matmul_val (get_T_matrix_monomial n steps) x ! 0 = x ! 0"
proof -
  have len0: "length (x ! 0) = c" using assms by (simp add: list_all_length)
  have "matmul_val (get_T_matrix_monomial n steps) x ! 0
      = map (\<lambda>j. \<Sum>i<n + 1. coeff_T_monomial i (linspace 0 1 steps ! 0) * x ! i ! j) [0..<c]"
    unfolding get_T_matrix_monomial_rows
    using assms by (intro matmul_val_row) (simp_all add: linspace_length)
  also have "\<dots> = map (\<lambda>j. x ! 0 ! j) [0..<c]"
    using assms(1)
    by (simp add: linspace_first coeff_T_monomial_at_0 pick_first del: sum.lessThan_Suc)
  finally show ?thesis by (simp add: row_of_nths len0)
qed

lemma monomial_last_row:
  assumes "1 < steps" "length x = n + 1" "list_all (\<lambda>p. length p = c) x"
  shows "matmul_val (get_T_matrix_monomial n steps) x ! (steps - 1)
    = map (\<lambda>j. \<Sum>i<n + 1. x ! i ! j) [0..<c]"
proof -
  have "matmul_val (get_T_matrix_monomial n steps) x ! (steps - 1)
      = map (\<lambda>j. \<Sum>i<n + 1. coeff_T_monomial i (linspace 0 1 steps ! (steps - 1)) * x ! i ! j)
          [0..<c]"
    unfolding get_T_matrix_monomial_rows
    using assms by (intro matmul_val_row) (simp_all add: linspace_length)
  also have "\<dots> = map (\<lambda>j. \<Sum>i<n + 1. x ! i ! j) [0..<c]"
    using assms(1) by (simp add: linspace_last' coeff_T_monomial_at_1 del: sum.lessThan_Suc)
  finally show ?thesis .
qed

lemma transpose_rect:
  assumes "length xs = k" "0 < k" "list_all (\<lambda>r. length r = a) xs"
  shows "transpose xs = map (\<lambda>i. map (\<lambda>j. xs ! j ! i) [0..<k]) [0..<a]"
proof -
  have "xs = map (\<lambda>j. map (\<lambda>i. xs ! j ! i) [0..<a]) [0..<k]"
    using assms by (simp add: list_eq_iff_nth_eq list_all_length)
  then have "transpose xs = transpose (map (\<lambda>j. map (\<lambda>i. xs ! j ! i) [0..<a]) [0..<k])"
    by simp
  also have "\<dots> = map (\<lambda>i. map (\<lambda>j. xs ! j ! i) [0..<k]) [0..<a]"
    using assms(2) by (intro transpose_columns) simp
  finally show ?thesis .
qed

lemma has_shape4_nth:
  assumes "has_shape4 k a n c param" "ik < k" "ia < a"
  shows "length (param ! ik) = a" "length (param ! ik ! ia) = n"
    "list_all (\<lambda>p. length p = c) (param ! ik ! ia)"
  using assms by (simp_all add: has_shape4_def list_all_length)

lemma permuted_nth:
  assumes "has_shape4 k a n c param" "ik < k" "ia < a"
  shows "length (transpose (map (map (map g)) param)) = a"
    and "length (transpose (map (map (map g)) param) ! ia) = k"
    and "transpose (map (map (map g)) param) ! ia ! ik = map g (param ! ik ! ia)"
proof -
  let ?xs = "map (map (map g)) param"
  have len: "length ?xs = k" and pos: "0 < k"
    using assms by (simp_all add: has_shape4_def)
  have rect: "list_all (\<lambda>r. length r = a) ?xs"
    using assms(1) by (simp add: has_shape4_def list_all_length)
  note tr = transpose_rect [OF len pos rect]
  show "length (transpose ?xs) = a" by (simp add: tr)
  show "length (transpose ?xs ! ia) = k" using assms(3) by (simp add: tr)
  show "transpose ?xs ! ia ! ik = map g (param ! ik ! ia)"
    using assms has_shape4_nth(1) [OF assms] by (simp add: tr has_shape4_def)
qed

lemma SceneDecoder_init_bezier:
  assumes "0 < h" "h mod 4 = 0"
  shows "SceneDecoder_init ''bezier'' h steps k =
    Inr \<lparr>hidden_size = h, future_steps = steps, num_modes = k, param_out = ''bezier'',
         N_ORDER = Some 7, mat_T = Some (get_T_matrix_bezier 7 steps),
         mat_Tp = Some (get_Tp_matrix_bezier 7 steps), reg_out = (7 + 1) * 5\<rparr>"
  using assms by (simp add: SceneDecoder_init_def MultiheadAttention_init_def)

lemma SceneDecoder_init_monomial:
  assumes "0 < h" "h mod 4 = 0"
  shows "SceneDecoder_init ''monomial'' h steps k =
    Inr \<lparr>hidden_size = h, future_steps = steps, num_modes = k, param_out = ''monomial'',
         N_ORDER = Some 7, mat_T = Some (get_T_matrix_monomial 7 steps),
         mat_Tp = Some (get_Tp_matrix_monomial 7 steps), reg_out = (7 + 1) * 5\<rparr>"
  using assms by (simp add: SceneDecoder_init_def MultiheadAttention_init_def)

lemma run_basis_val_bezier:
  assumes "0 < h" "h mod 4 = 0"
  shows "run_basis_val ''bezier'' h steps k param =
    Inr (map (map (matmul_val (get_T_matrix_bezier 7 steps))) (reg_param_val param),
         map (map (\<lambda>x. div_val (matmul_val (get_Tp_matrix_bezier 7 steps) (diff_val x))
                          (real steps * 0.1))) (reg_param_val param),
         map (map (matmul_val (get_T_matrix_bezier 7 steps))) (cov_param_val param),
         map (map (\<lambda>x. div_val (matmul_val (get_Tp_matrix_bezier 7 steps) (diff_val x))
                          (real steps * 0.1))) (cov_param_val param))"
  by (simp add: run_basis_val_def SceneDecoder_init_bezier [OF assms] basis_branch_val_def
      branch_bezier_val_def attr_def)

lemma run_basis_val_monomial:
  assumes "0 < h" "h mod 4 = 0"
  shows "run_basis_val ''monomial'' h steps k param =
    Inr (map (map (matmul_val (get_T_matrix_monomial 7 steps))) (reg_param_val param),
         map (map (\<lambda>x. div_val (matmul_val (get_Tp_matrix_monomial 7 steps) (tl x))
                          (real steps * 0.1))) (reg_param_val param),
         map (map (matmul_val (get_T_matrix_monomial 7 steps))) (cov_param_val param),
         map (map (\<lambda>x. div_val (matmul_val (get_Tp_matrix_monomial 7 steps) (diff_val x))
                          (real steps * 0.1))) (cov_param_val param))"
  by (simp add: run_basis_val_def SceneDecoder_init_monomial [OF assms] basis_branch_val_def
      branch_monomial_val_def attr_def)

lemma control_points:
  assumes "has_shape4 k a 8 5 param" "ik < k" "ia < a"
  shows "length (map (take 2) (param ! ik ! ia)) = 7 + 1"
    and "list_all (\<lambda>p. length p = 2) (map (take 2) (param ! ik ! ia))"
    and "i < 8 \<Longrightarrow> map (take 2) (param ! ik ! ia) ! i = take 2 (param ! ik ! ia ! i)"
    and "i < 8 \<Longrightarrow> j < 2 \<Longrightarrow> map (take 2) (param ! ik ! ia) ! i ! j = param ! ik ! ia ! i ! j"
proof -
  note sh = has_shape4_nth [OF assms]
  show "length (map (take 2) (param ! ik ! ia)) = 7 + 1" using sh by simp
  show "list_all (\<lambda>p. length p = 2) (map (take 2) (param ! ik ! ia))"
    using sh by (simp add: list_all_length)
  show "map (take 2) (param ! ik ! ia) ! i = take 2 (param ! ik ! ia ! i)" if "i < 8"
    using sh that by simp
  show "map (take 2) (param ! ik ! ia) ! i ! j = param ! ik ! ia ! i ! j" if "i < 8" "j < 2"
    using sh that by (simp add: list_all_length)
qed

lemma positions_val_bezier:
  assumes "0 < h" "h mod 4 = 0" "has_shape4 k a 8 5 param" "ik < k" "ia < a"
  shows "\<exists>reg. positions_val ''bezier'' h steps k param = Inr reg \<and>
    reg ! ia ! ik = matmul_val (get_T_matrix_bezier 7 steps) (map (take 2) (param ! ik ! ia))"
  using assms(4,5) permuted_nth [OF assms(3-5), of "take 2"]
  by (simp add: positions_val_def run_basis_val_bezier [OF assms(1,2)] reg_param_val_def)

lemma positions_val_monomial:
  assumes "0 < h" "h mod 4 = 0" "has_shape4 k a 8 5 param" "ik < k" "ia < a"
  shows "\<exists>reg. positions_val ''monomial'' h steps k param = Inr reg \<and>
    reg ! ia ! ik = matmul_val (get_T_matrix_monomial 7 steps) (map (take 2) (param ! ik ! ia))"
  using assms(4,5) permuted_nth [OF assms(3-5), of "take 2"]
  by (simp add: positions_val_def run_basis_val_monomial [OF assms(1,2)] reg_param_val_def)

text \<open>
  Claim C5, as amended. For \<^verbatim>\<open>param_out = 'bezier'\<close> and \<^verbatim>\<open>'monomial'\<close> and every
  regression output \<^verbatim>\<open>param\<close> of shape \<^verbatim>\<open>(K, A, 8, 5)\<close>, the position at the first future
  timestep is the position part of the first control point. At the last future
  timestep (when there are at least two timesteps) the \<^verbatim>\<open>bezier\<close> position is the
  position part of the last control point, and the \<^verbatim>\<open>monomial\<close> position is the sum of
  the position parts of all eight coefficients.
\<close>

theorem basis_endpoints:
  assumes "0 < h" "h mod 4 = 0" "has_shape4 K A 8 5 param" "k < K" "a < A"
  shows "(\<exists>reg. positions_val ''bezier'' h steps K param = Inr reg \<and>
           (0 < steps \<longrightarrow> reg ! a ! k ! 0 = take 2 (param ! k ! a ! 0)) \<and>
           (1 < steps \<longrightarrow> reg ! a ! k ! (steps - 1) = take 2 (param ! k ! a ! 7))) \<and>
         (\<exists>reg. positions_val ''monomial'' h steps K param = Inr reg \<and>
           (0 < steps \<longrightarrow> reg ! a ! k ! 0 = take 2 (param ! k ! a ! 0)) \<and>
           (1 < steps \<longrightarrow> reg ! a ! k ! (steps - 1)
              = [\<Sum>i<8. param ! k ! a ! i ! 0, \<Sum>i<8. param ! k ! a ! i ! 1]))"
proof -
  let ?x = "map (take 2) (param ! k ! a)"
  note cp = control_points [OF assms(3-5)]
  from positions_val_bezier [OF assms] obtain regb
    where b: "positions_val ''bezier'' h steps K param = Inr regb"
      and rb: "regb ! a ! k = matmul_val (get_T_matrix_bezier 7 steps) ?x" by blast
  from positions_val_monomial [OF assms] obtain regm
    where m: "positions_val ''monomial'' h steps K param = Inr regm"
      and rm: "regm ! a ! k = matmul_val (get_T_matrix_monomial 7 steps) ?x" by blast
  have b0: "regb ! a ! k ! 0 = take 2 (param ! k ! a ! 0)" if "0 < steps"
    using bezier_first_row [OF that cp(1,2)] cp(3) [of 0] by (simp add: rb)
  have b1: "regb ! a ! k ! (steps - 1) = take 2 (param ! k ! a ! 7)" if "1 < steps"
    using bezier_last_row [OF that cp(1,2)] cp(3) [of 7] by (simp add: rb)
  have m0: "regm ! a ! k ! 0 = take 2 (param ! k ! a ! 0)" if "0 < steps"
    using monomial_first_row [OF that cp(1,2)] cp(3) [of 0] by (simp add: rm)
  have m1: "regm ! a ! k ! (steps - 1)
      = [\<Sum>i<8. param ! k ! a ! i ! 0, \<Sum>i<8. param ! k ! a ! i ! 1]" if "1 < steps"
  proof -
    have s: "(\<Sum>i<8. ?x ! i ! j) = (\<Sum>i<8. param ! k ! a ! i ! j)" if "j < 2" for j
      using that cp(4) by (intro sum.cong) simp_all
    have "regm ! a ! k ! (steps - 1) = map (\<lambda>j. \<Sum>i<7 + 1. ?x ! i ! j) [0..<2]"
      using monomial_last_row [OF \<open>1 < steps\<close> cp(1,2)] by (simp add: rm)
    also have "\<dots> = [\<Sum>i<8. ?x ! i ! 0, \<Sum>i<8. ?x ! i ! 1]"
    proof -
      have "[0..<2] = [0, 1]" by (simp add: upt_rec)
      then show ?thesis by simp
    qed
    finally show ?thesis using s [of 0] s [of 1] by simp
  qed
  show ?thesis using b m b0 b1 m0 m1 by simp
qed

theorem basis_endpoints_witness:
  "(\<exists>reg. positions_val ''bezier'' 8 3 1
       [[[[1, 2, 0, 0, 0], [2, 3, 0, 0, 0], [3, 4, 0, 0, 0], [4, 5, 0, 0, 0],
          [5, 6, 0, 0, 0], [6, 7, 0, 0, 0], [7, 8, 0, 0, 0], [8, 9, 0, 0, 1]]]] = Inr reg \<and>
      reg ! 0 ! 0 ! 0 = [1, 2] \<and> reg ! 0 ! 0 ! 2 = [8, 9]) \<and>
   (\<exists>reg. positions_val ''monomial'' 8 3 1
       [[[[1, 2, 0, 0, 0], [2, 3, 0, 0, 0], [3, 4, 0, 0, 0], [4, 5, 0, 0, 0],
          [5, 6, 0, 0, 0], [6, 7, 0, 0, 0], [7, 8, 0, 0, 0], [8, 9, 0, 0, 1]]]] = Inr reg \<and>
      reg ! 0 ! 0 ! 0 = [1, 2] \<and> reg ! 0 ! 0 ! 2 = [36, 44])"
proof -
  let ?p = "[[[[1, 2, 0, 0, 0], [2, 3, 0, 0, 0], [3, 4, 0, 0, 0], [4, 5, 0, 0, 0],
          [5, 6, 0, 0, 0], [6, 7, 0, 0, 0], [7, 8, 0, 0, 0], [8, 9, 0, 0, 1 :: real]]]]"
  have sh: "has_shape4 1 1 8 5 ?p" by (simp add: has_shape4_def)
  have s: "{..<8::nat} = {0, 1, 2, 3, 4, 5, 6, 7}" by auto
  from basis_endpoints [of 8 1 1 ?p 0 0 3, OF _ _ sh] show ?thesis
    by (simp add: s)
qed

text \<open>
  Claim C5 as stated fails for \<^verbatim>\<open>param_out = 'monomial'\<close>: with three future steps and
  the control points \<^verbatim>\<open>(1, 2), (2, 3), ..., (8, 9)\<close> the position at the last step is
  \<^verbatim>\<open>(36, 44)\<close>, not the last control point \<^verbatim>\<open>(8, 9)\<close>.
\<close>

theorem monomial_last_point_counterexample:
  "positions_val ''monomial'' 8 3 1
       [[[[1, 2, 0, 0, 0], [2, 3, 0, 0, 0], [3, 4, 0, 0, 0], [4, 5, 0, 0, 0],
          [5, 6, 0, 0, 0], [6, 7, 0, 0, 0], [7, 8, 0, 0, 0], [8, 9, 0, 0, 1]]]]
     = Inr [[[[1, 2], [251 / 64, 757 / 128], [36, 44]]]]"
  by code_simp

section \<open>The velocity of the bezier branch\<close>

lemma diff_val_length: "length (diff_val x) = length x - 1"
  by (simp add: diff_val_def)

lemma diff_val_nth:
  assumes "i + 1 < length x" "list_all (\<lambda>p. length p = c) x" "j < c"
  shows "length (diff_val x ! i) = c" and "diff_val x ! i ! j = x ! (i + 1) ! j - x ! i ! j"
proof -
  have l: "length (x ! i) = c" "length (x ! Suc i) = c"
    using assms by (simp_all add: list_all_length)
  show "length (diff_val x ! i) = c"
    using assms l by (simp add: diff_val_def nth_tl)
  show "diff_val x ! i ! j = x ! (i + 1) ! j - x ! i ! j"
    using assms l by (simp add: diff_val_def nth_tl)
qed

lemma diff_val_rect:
  assumes "list_all (\<lambda>p. length p = c) x"
  shows "list_all (\<lambda>p. length p = c) (diff_val x)"
proof -
  have "length (diff_val x ! i) = c" if "i < length (diff_val x)" for i
  proof -
    from that have i: "i + 1 < length x" by (simp add: diff_val_length)
    then have "length (x ! i) = c" "length (x ! Suc i) = c"
      using assms by (simp_all add: list_all_length)
    then show ?thesis using i by (simp add: diff_val_def nth_tl)
  qed
  then show ?thesis by (simp add: list_all_length)
qed

lemma div_val_nth:
  "t < length m \<Longrightarrow> j < length (m ! t) \<Longrightarrow> div_val m d ! t ! j = m ! t ! j / d"
  by (simp add: div_val_def)

lemma velocities_val_bezier:
  assumes "0 < h" "h mod 4 = 0" "has_shape4 k a 8 5 param" "ik < k" "ia < a"
  shows "\<exists>vel. velocities_val ''bezier'' h steps k param = Inr vel \<and>
    vel ! ia ! ik = div_val (matmul_val (get_Tp_matrix_bezier 7 steps)
        (diff_val (map (take 2) (param ! ik ! ia)))) (real steps * 0.1)"
  using assms(4,5) permuted_nth [OF assms(3-5), of "take 2"]
  by (simp add: velocities_val_def run_basis_val_bezier [OF assms(1,2)] reg_param_val_def)

lemma bezier_position_sample:
  assumes "t < steps" "length x = 7 + 1" "list_all (\<lambda>p. length p = 2) x" "j < 2"
  shows "matmul_val (get_T_matrix_bezier 7 steps) x ! t ! j
    = bezier_curve 7 x j (linspace 0 1 steps ! t)"
proof -
  have ch: "channels x = 2" using assms by (intro channels_rect) auto
  show ?thesis
    unfolding get_T_matrix_bezier_rows bezier_curve_def
    using assms ch by (intro matmul_val_nth) (simp_all add: linspace_length)
qed

lemma bezier_velocity_sample:
  assumes "t < steps" "length x = 7 + 1" "list_all (\<lambda>p. length p = 2) x" "j < 2"
  shows "matmul_val (get_Tp_matrix_bezier 7 steps) (diff_val x) ! t ! j
    = (\<Sum>i<7. coeff_Tp_bezier 7 i (linspace 0 1 steps ! t) * (x ! (i + 1) ! j - x ! i ! j))"
proof -
  have len: "length (diff_val x) = 7" using assms by (simp add: diff_val_length)
  have rect: "list_all (\<lambda>p. length p = 2) (diff_val x)"
    using assms by (intro diff_val_rect)
  have ch: "channels (diff_val x) = 2" using len rect by (intro channels_rect) auto
  have "matmul_val (get_Tp_matrix_bezier 7 steps) (diff_val x) ! t ! j
      = (\<Sum>i<7. coeff_Tp_bezier 7 i (linspace 0 1 steps ! t) * diff_val x ! i ! j)"
    unfolding get_Tp_matrix_bezier_rows [of 7 steps, simplified]
    using assms len ch by (intro matmul_val_nth) (simp_all add: linspace_length)
  also have "\<dots> = (\<Sum>i<7. coeff_Tp_bezier 7 i (linspace 0 1 steps ! t)
      * (x ! (i + 1) ! j - x ! i ! j))"
    using assms by (intro sum.cong) (simp_all add: diff_val_nth(2) [where c = 2])
  finally show ?thesis .
qed

text \<open>
  Claim C10. For \<^verbatim>\<open>param_out = 'bezier'\<close>, every regression output \<^verbatim>\<open>param\<close> of shape
  \<^verbatim>\<open>(K, A, 8, 5)\<close>, every actor \<^verbatim>\<open>a\<close>, mode \<^verbatim>\<open>k\<close>, future step \<^verbatim>\<open>t\<close> and position
  channel \<^verbatim>\<open>j\<close>: the emitted position is the Bezier curve of the control points sampled
  at time \<^verbatim>\<open>linspace(0, 1, future_steps)[t]\<close>, and the emitted velocity is the derivative
  of that curve at the same time divided by \<^verbatim>\<open>future_steps * 0.1\<close>.
\<close>

theorem bezier_velocity_is_derivative:
  assumes "0 < h" "h mod 4 = 0" "has_shape4 K A 8 5 param" "k < K" "a < A"
    and "t < steps" "j < 2"
  shows "\<exists>reg vel D.
    positions_val ''bezier'' h steps K param = Inr reg \<and>
    velocities_val ''bezier'' h steps K param = Inr vel \<and>
    reg ! a ! k ! t ! j = bezier_curve 7 (param ! k ! a) j (linspace 0 1 steps ! t) \<and>
    (bezier_curve 7 (param ! k ! a) j has_real_derivative D) (at (linspace 0 1 steps ! t)) \<and>
    vel ! a ! k ! t ! j = D / (real steps * 0.1)"
proof -
  let ?x = "map (take 2) (param ! k ! a)"
  let ?ts = "linspace 0 1 steps"
  let ?D = "\<Sum>i<7. coeff_Tp_bezier 7 i (?ts ! t)
      * (param ! k ! a ! (i + 1) ! j - param ! k ! a ! i ! j)"
  note cp = control_points [OF assms(3-5)]
  from positions_val_bezier [OF assms(1-5)] obtain reg
    where r: "positions_val ''bezier'' h steps K param = Inr reg"
      and rr: "reg ! a ! k = matmul_val (get_T_matrix_bezier 7 steps) ?x" by blast
  from velocities_val_bezier [OF assms(1-5)] obtain vel
    where v: "velocities_val ''bezier'' h steps K param = Inr vel"
      and vv: "vel ! a ! k = div_val (matmul_val (get_Tp_matrix_bezier 7 steps) (diff_val ?x))
          (real steps * 0.1)" by blast
  have same: "bezier_curve 7 ?x j = bezier_curve 7 (param ! k ! a) j"
  proof
    fix u
    show "bezier_curve 7 ?x j u = bezier_curve 7 (param ! k ! a) j u"
      unfolding bezier_curve_def using cp(4) assms(7) by (intro sum.cong) simp_all
  qed
  have pos: "reg ! a ! k ! t ! j = bezier_curve 7 (param ! k ! a) j (?ts ! t)"
    using bezier_position_sample [OF assms(6) cp(1,2) assms(7)] by (simp add: rr same)
  have der: "(bezier_curve 7 (param ! k ! a) j has_real_derivative ?D) (at (?ts ! t))"
    by (rule bezier_curve_deriv)
  have "matmul_val (get_Tp_matrix_bezier 7 steps) (diff_val ?x) ! t ! j
      = (\<Sum>i<7. coeff_Tp_bezier 7 i (?ts ! t) * (?x ! (i + 1) ! j - ?x ! i ! j))"
    by (rule bezier_velocity_sample [OF assms(6) cp(1,2) assms(7)])
  also have "\<dots> = ?D"
    using cp(4) assms(7) by (intro sum.cong) simp_all
  finally have mm: "matmul_val (get_Tp_matrix_bezier 7 steps) (diff_val ?x) ! t ! j = ?D" .
  have tl: "t < length (matmul_val (get_Tp_matrix_bezier 7 steps) (diff_val ?x))"
    using assms(6)
    by (simp add: matmul_val_length get_Tp_matrix_bezier_rows [of 7 steps, simplified]
        linspace_length)
  have "length (diff_val ?x) = 7"
    using cp(1) by (simp add: diff_val_length)
  then have "diff_val ?x \<noteq> []" by auto
  then have ch: "channels (diff_val ?x) = 2"
    using cp(2) by (intro channels_rect diff_val_rect)
  have jl: "j < length (matmul_val (get_Tp_matrix_bezier 7 steps) (diff_val ?x) ! t)"
    using tl assms(7) ch by (simp add: matmul_val_row_length matmul_val_length)
  have "vel ! a ! k ! t ! j = ?D / (real steps * 0.1)"
    using div_val_nth [OF tl jl] mm by (simp add: vv)
  with r v pos der show ?thesis by blast
qed

theorem bezier_velocity_is_derivative_witness:
  "\<exists>reg vel D.
    positions_val ''bezier'' 8 3 1
       [[[[1, 2, 0, 0, 0], [2, 3, 0, 0, 0], [3, 4, 0, 0, 0], [4, 5, 0, 0, 0],
          [5, 6, 0, 0, 0], [6, 7, 0, 0, 0], [7, 8, 0, 0, 0], [8, 9, 0, 0, 1]]]] = Inr reg \<and>
    velocities_val ''bezier'' 8 3 1
       [[[[1, 2, 0, 0, 0], [2, 3, 0, 0, 0], [3, 4, 0, 0, 0], [4, 5, 0, 0, 0],
          [5, 6, 0, 0, 0], [6, 7, 0, 0, 0], [7, 8, 0, 0, 0], [8, 9, 0, 0, 1]]]] = Inr vel \<and>
    reg ! 0 ! 0 ! 1 ! 0
      = bezier_curve 7 [[1, 2, 0, 0, 0], [2, 3, 0, 0, 0], [3, 4, 0, 0, 0], [4, 5, 0, 0, 0],
          [5, 6, 0, 0, 0], [6, 7, 0, 0, 0], [7, 8, 0, 0, 0], [8, 9, 0, 0, 1]] 0
          (linspace 0 1 3 ! 1) \<and>
    (bezier_curve 7 [[1, 2, 0, 0, 0], [2, 3, 0, 0, 0], [3, 4, 0, 0, 0], [4, 5, 0, 0, 0],
          [5, 6, 0, 0, 0], [6, 7, 0, 0, 0], [7, 8, 0, 0, 0], [8, 9, 0, 0, 1]] 0
       has_real_derivative D) (at (linspace 0 1 3 ! 1)) \<and>
    vel ! 0 ! 0 ! 1 ! 0 = D / (real 3 * 0.1)"
proof -
  let ?p = "[[[[1, 2, 0, 0, 0], [2, 3, 0, 0, 0], [3, 4, 0, 0, 0], [4, 5, 0, 0, 0],
          [5, 6, 0, 0, 0], [6, 7, 0, 0, 0], [7, 8, 0, 0, 0], [8, 9, 0, 0, 1 :: real]]]]"
  have sh: "has_shape4 1 1 8 5 ?p" by (simp add: has_shape4_def)
  from bezier_velocity_is_derivative [of 8 1 1 ?p 0 0 1 3 0, OF _ _ sh] show ?thesis
    by simp
qed


section \<open>SceneDecoder: the shapes of the outputs\<close>

lemma view_modes:
  assumes "0 < k" "0 < h"
  shows "view [None, Some k, Some h] [a, h * k] = Inr [a, k, h]"
proof -
  have "a * (h * k) = a * (k * h)" by (simp add: mult.commute)
  then show ?thesis using assms by (simp add: view_def numel_def)
qed

lemma view_logits: "0 < k \<Longrightarrow> view [Some k, None] [k, Suc 0, Suc 0] = Inr [k, Suc 0]"
  by (simp add: view_def numel_def)

lemma view_param:
  assumes "0 < k"
  shows "view [Some k, None, Some 8, Some 5] [k, a, 40] = Inr [k, a, 8, 5]"
proof -
  have "k * (a * 40) = a * (k * 40)" by simp
  then show ?thesis using assms by (simp add: view_def numel_def)
qed

lemma permute_102 [simp]: "permute [Suc 0, 0, 2] [a, b, c] = Inr [b, a, c]"
  by (simp add: permute_def upt_rec)

lemma permute_1023 [simp]: "permute [Suc 0, 0, 2, 3] [a, b, c, d] = Inr [b, a, c, d]"
  by (simp add: permute_def upt_rec)

lemma permute_10 [simp]: "permute [Suc 0, 0] [a, b] = Inr [b, a]"
  by (simp add: permute_def upt_rec)

lemma add_modes: "add [k, 1, h] [k, a, h] = Inr [k, a, h]"
  by (simp add: add_def broadcast_def)

lemma assign_target: "setitem [a, h] [1, h] = Inr [a, h]"
  by (cases "h = 1") (simp_all add: setitem_def broadcast_def)

lemma cat_last2: "cat [[a, c], [a, d]] (- 1) = Inr [a, c + d]"
  by (simp add: cat_def axis_def)

lemma cat_last4: "cat [[a, b, s, c], [a, b, s, d]] (- 1) = Inr [a, b, s, c + d]"
  by (simp add: cat_def axis_def)

lemma index_tensor_ok:
  "list_all (\<lambda>i. - int n \<le> i \<and> i < int n) idcs \<Longrightarrow>
     index_tensor [n, h] idcs = Inr [length idcs, h]"
  by (simp add: index_tensor_def)

lemma index_int_ok: "idx < n \<Longrightarrow> index_int (n # ds) (int idx) = Inr ds"
  by (simp add: index_int_def)

lemma index_int_0: "0 < n \<Longrightarrow> index_int (n # ds) 0 = Inr ds"
  by (simp add: index_int_def)

lemma Linear3: "Linear a b [x, y, a] = Inr [x, y, b]"
  by (simp add: Linear_def)

lemma param_view_shape:
  assumes "basis_decoder dec h steps k" "0 < k"
  shows "param_view dec [k, a, h] = Inr [k, a, 8, 5]"
  using assms
  by (auto simp add: basis_decoder_def param_view_def reg_head_def Linear3 attr_def view_param)

lemma branch_bezier_shape:
  assumes "basis_decoder dec h steps k" "0 < k"
  shows "branch_bezier dec [k, a, h]
    = Inr ([a, k, steps, 2], [a, k, steps, 2], [a, k, steps, 3], [a, k, steps, 3], [k, a, 8, 5])"
  using assms(1)
  by (auto simp add: branch_bezier_def param_view_shape [OF assms] basis_decoder_def
      chan_to2_def chan_from2_def attr_def matmul_def mat_shape_def diff2_def)

lemma branch_monomial_shape:
  assumes "basis_decoder dec h steps k" "0 < k"
  shows "branch_monomial dec [k, a, h]
    = Inr ([a, k, steps, 2], [a, k, steps, 2], [a, k, steps, 3], [a, k, steps, 3], [k, a, 8, 5])"
  using assms(1)
  by (auto simp add: branch_monomial_def param_view_shape [OF assms] basis_decoder_def
      chan_to2_def chan_from2_def attr_def matmul_def mat_shape_def diff2_def ctrl_from1_def)


lemma decode_scene_shape:
  assumes dec: "basis_decoder dec h steps k" and k: "0 < k" and h: "0 < h"
    and idx: "idx < s" "idx < t"
    and idcs: "list_all (\<lambda>i. - int n \<le> i \<and> i < int n) a_idcs"
  shows "decode_scene dec [s, h] [n, h] [t, h] idx a_idcs
    = Inr ([1, k], [length a_idcs, k, steps, 5],
           ([length a_idcs, k, steps, 2], [length a_idcs, k, steps, 3],
            Some [k, length a_idcs, 8, 5]))"
proof -
  have f: "hidden_size dec = h" "num_modes dec = k"
    and po: "param_out dec = ''bezier'' \<or> param_out dec = ''monomial''"
    using dec by (simp_all add: basis_decoder_def)
  have ctx: "bnd (bnd (ctx_proj dec [1, h])
      (view [None, Some (num_modes dec), Some (hidden_size dec)])) (permute [1, 0, 2])
      = Inr [k, 1, h]"
    using k h by (simp add: ctx_proj_def dim_mm_def dim_inter_def f view_modes)
  have act: "bnd (bnd (actor_proj dec [length a_idcs, h])
      (view [None, Some (num_modes dec), Some (hidden_size dec)])) (permute [1, 0, 2])
      = Inr [k, length a_idcs, h]"
    using k h by (simp add: actor_proj_def dim_mm_def dim_inter_def f view_modes)
  have sat: "ctx_sat dec [k, 1, h] = Inr [k, 1, h]"
    by (simp add: ctx_sat_def f)
  have cls: "bnd (cls_head dec [k, 1, h]) (view [Some (num_modes dec), None]) = Inr [k, 1]"
    using k by (simp add: cls_head_def f Linear3 view_logits)
  show ?thesis
    unfolding decode_scene_def
    by (simp only: index_int_ok [OF idx(1)] index_int_ok [OF idx(2)] index_tensor_ok [OF idcs]
        bnd_simps ctx act sat zeros_like_def index_int_0 [OF k] unsqueeze0_def assign_target
        add_modes add_same cls)
      (use po in \<open>auto simp add: branch_bezier_shape [OF dec k]
        branch_monomial_shape [OF dec k] cat_last4\<close>)
qed

lemma decode_scenes_shape:
  assumes dec: "basis_decoder dec h steps k" and k: "0 < k" and h: "0 < h"
  shows "idx + length actor_idcs \<le> s \<Longrightarrow> idx + length actor_idcs \<le> t \<Longrightarrow>
    list_all (list_all (\<lambda>i. - int n \<le> i \<and> i < int n)) actor_idcs \<Longrightarrow>
    decode_scenes dec [s, h] [n, h] [t, h] idx actor_idcs
      = Inr (map (\<lambda>a. ([1, k], [length a, k, steps, 5],
               ([length a, k, steps, 2], [length a, k, steps, 3],
                Some [k, length a, 8, 5]))) actor_idcs)"
proof (induction actor_idcs arbitrary: idx)
  case Nil
  show ?case by simp
next
  case (Cons a rest)
  have one: "decode_scene dec [s, h] [n, h] [t, h] idx a
      = Inr ([1, k], [length a, k, steps, 5],
           ([length a, k, steps, 2], [length a, k, steps, 3], Some [k, length a, 8, 5]))"
    using Cons.prems by (intro decode_scene_shape [OF dec k h]) simp_all
  have more: "decode_scenes dec [s, h] [n, h] [t, h] (Suc idx) rest
      = Inr (map (\<lambda>a. ([1, k], [length a, k, steps, 5],
               ([length a, k, steps, 2], [length a, k, steps, 3],
                Some [k, length a, 8, 5]))) rest)"
    using Cons.prems by (intro Cons.IH) simp_all
  show ?case by (simp add: one more)
qed

lemma SceneDecoder_forward_shape:
  assumes dec: "basis_decoder dec h steps k" and k: "0 < k" and h: "0 < h"
    and len: "length actor_idcs \<le> s" "length actor_idcs \<le> t"
    and idcs: "list_all (list_all (\<lambda>i. - int n \<le> i \<and> i < int n)) actor_idcs"
    and tgt: "tgt_feat = [t, h] \<or> t = 1 \<and> tgt_feat = [h]"
  shows "SceneDecoder_forward dec [s, h] [n, h] actor_idcs tgt_feat [t, 20]
    = Inr (map (\<lambda>a. [1, k]) actor_idcs,
           map (\<lambda>a. [length a, k, steps, 5]) actor_idcs,
           map (\<lambda>a. ([length a, k, steps, 2], [length a, k, steps, 3],
                  Some [k, length a, 8, 5])) actor_idcs)"
proof -
  have f: "hidden_size dec = h" using dec by (simp add: basis_decoder_def)
  have feat: "(if length tgt_feat = 1 then unsqueeze0 tgt_feat else tgt_feat) = [t, h]"
    using tgt by (auto simp add: unsqueeze0_def)
  have tg: "proj_tgt dec [t, h + h] = Inr [t, h]"
    by (simp add: proj_tgt_def f mult_2)
  have loop: "decode_scenes dec [s, h] [n, h] [t, h] 0 actor_idcs
      = Inr (map (\<lambda>a. ([1, k], [length a, k, steps, 5],
               ([length a, k, steps, 2], [length a, k, steps, 3],
                Some [k, length a, 8, 5]))) actor_idcs)"
    using len idcs by (intro decode_scenes_shape [OF dec k h]) simp_all
  show ?thesis
    unfolding SceneDecoder_forward_def
    by (simp only: proj_rpe_20 f bnd_simps feat cat_last2 tg loop) (simp add: comp_def)
qed


lemma basis_matrix_lengths:
  "length (get_T_matrix_bezier 7 steps) = steps"
  "length (get_Tp_matrix_bezier 7 steps) = steps"
  "length (get_T_matrix_monomial 7 steps) = steps"
  "length (get_Tp_matrix_monomial 7 steps) = steps"
  by (simp_all add: get_T_matrix_bezier_rows get_T_matrix_monomial_rows
      get_Tp_matrix_bezier_rows [of 7, simplified]
      get_Tp_matrix_monomial_rows [of 7, simplified] linspace_length)

lemma init_basis_decoder:
  assumes "po = ''bezier'' \<or> po = ''monomial''" "0 < h" "h mod 4 = 0"
  shows "\<exists>dec. SceneDecoder_init po h steps k = Inr dec \<and> basis_decoder dec h steps k"
  using assms(1)
  by (auto simp add: SceneDecoder_init_bezier [OF assms(2,3)]
      SceneDecoder_init_monomial [OF assms(2,3)] basis_decoder_def basis_matrix_lengths)

lemma basis_branch_val_parts:
  assumes "basis_decoder dec h steps k"
  shows "\<exists>mT vel cov_vel. length mT = steps \<and>
    basis_branch_val dec param
      = Inr (map (map (matmul_val mT)) (reg_param_val param), vel,
             map (map (matmul_val mT)) (cov_param_val param), cov_vel)"
  using assms
  by (auto simp add: basis_decoder_def basis_branch_val_def branch_bezier_val_def
      branch_monomial_val_def attr_def)

lemma cat_exp_val_nth:
  assumes "ia < length reg" "ia < length cov"
    "ik < length (reg ! ia)" "ik < length (cov ! ia)"
    "it < length (reg ! ia ! ik)" "it < length (cov ! ia ! ik)"
  shows "cat_exp_val reg cov ! ia ! ik ! it
    = reg ! ia ! ik ! it @ map exp (cov ! ia ! ik ! it)"
  using assms by (simp add: cat_exp_val_def)

lemma trajectory_rows:
  assumes dec: "basis_decoder dec h steps k"
    and sh: "has_shape4 k a 8 5 param" and i: "ik < k" "ia < a" "it < steps"
  shows "\<exists>reg vel cov cov_vel traj.
    basis_branch_val dec param = Inr (reg, vel, cov, cov_vel) \<and>
    trajectories_val dec param = Inr traj \<and>
    traj ! ia ! ik ! it = reg ! ia ! ik ! it @ map exp (cov ! ia ! ik ! it) \<and>
    length (reg ! ia ! ik ! it) = 2 \<and> length (cov ! ia ! ik ! it) = 3"
proof -
  from basis_branch_val_parts [OF dec, of param] obtain mT vel cov_vel
    where len: "length mT = steps"
      and br: "basis_branch_val dec param
        = Inr (map (map (matmul_val mT)) (reg_param_val param), vel,
               map (map (matmul_val mT)) (cov_param_val param), cov_vel)"
    by blast
  let ?reg = "map (map (matmul_val mT)) (reg_param_val param)"
  let ?cov = "map (map (matmul_val mT)) (cov_param_val param)"
  note pr = permuted_nth [OF sh i(1,2), of "take 2"]
  note pc = permuted_nth [OF sh i(1,2), of "drop 2"]
  note shn = has_shape4_nth [OF sh i(1,2)]
  have r: "?reg ! ia ! ik = matmul_val mT (map (take 2) (param ! ik ! ia))"
    using pr i by (simp add: reg_param_val_def)
  have c: "?cov ! ia ! ik = matmul_val mT (map (drop 2) (param ! ik ! ia))"
    using pc i by (simp add: cov_param_val_def)
  have chr: "channels (map (take 2) (param ! ik ! ia)) = 2"
    using shn by (intro channels_rect) (auto simp add: list_all_length)
  have chc: "channels (map (drop 2) (param ! ik ! ia)) = 3"
    using shn by (intro channels_rect) (auto simp add: list_all_length)
  have lr: "length (?reg ! ia ! ik ! it) = 2"
    using i(3) len by (simp add: r matmul_val_row_length chr)
  have lc: "length (?cov ! ia ! ik ! it) = 3"
    using i(3) len by (simp add: c matmul_val_row_length chc)
  have "cat_exp_val ?reg ?cov ! ia ! ik ! it
      = ?reg ! ia ! ik ! it @ map exp (?cov ! ia ! ik ! it)"
  proof (rule cat_exp_val_nth)
    show "ia < length ?reg" using pr(1) i by (simp add: reg_param_val_def)
    show "ia < length ?cov" using pc(1) i by (simp add: cov_param_val_def)
    show "ik < length (?reg ! ia)" using pr(1,2) i by (simp add: reg_param_val_def)
    show "ik < length (?cov ! ia)" using pc(1,2) i by (simp add: cov_param_val_def)
    show "it < length (?reg ! ia ! ik)" using i(3) len by (simp add: r matmul_val_length)
    show "it < length (?cov ! ia ! ik)" using i(3) len by (simp add: c matmul_val_length)
  qed
  then show ?thesis
    using br lr lc by (simp add: trajectories_val_def)
qed

text \<open>
  Claim C1, as amended. Under \<^verbatim>\<open>param_out = 'bezier'\<close> and \<^verbatim>\<open>'monomial'\<close>, for every
  well-shaped input the decoder's forward pass returns, and the entry of the second
  output list for a scene with \<^verbatim>\<open>A\<close> target actors has shape
  \<^verbatim>\<open>(A, K, future_steps, 5)\<close>: five channels per timestep. For every value \<^verbatim>\<open>param\<close> of
  the regression output, each row of the trajectories is the 2-channel position followed
  by the exponential of the 3-channel log-variance output.
\<close>

theorem trajectories_have_five_channels:
  assumes "po = ''bezier'' \<or> po = ''monomial''" and "0 < h" and "h mod 4 = 0" and "0 < k"
    and "length actor_idcs \<le> s" and "length actor_idcs \<le> t"
    and "list_all (list_all (\<lambda>i. - int n \<le> i \<and> i < int n)) actor_idcs"
    and "tgt_feat = [t, h] \<or> t = 1 \<and> tgt_feat = [h]"
    and "has_shape4 k a 8 5 param" and "ik < k" and "ia < a" and "it < steps"
  shows "run_decoder po h steps k [s, h] [n, h] actor_idcs tgt_feat [t, 20]
      = Inr (map (\<lambda>a. [1, k]) actor_idcs,
             map (\<lambda>a. [length a, k, steps, 5]) actor_idcs,
             map (\<lambda>a. ([length a, k, steps, 2], [length a, k, steps, 3],
                    Some [k, length a, 8, 5])) actor_idcs) \<and>
    (\<exists>reg vel cov cov_vel traj.
       run_basis_val po h steps k param = Inr (reg, vel, cov, cov_vel) \<and>
       run_trajectories_val po h steps k param = Inr traj \<and>
       traj ! ia ! ik ! it = reg ! ia ! ik ! it @ map exp (cov ! ia ! ik ! it) \<and>
       length (reg ! ia ! ik ! it) = 2 \<and> length (cov ! ia ! ik ! it) = 3)"
proof -
  from init_basis_decoder [OF assms(1-3)] obtain dec
    where init: "SceneDecoder_init po h steps k = Inr dec"
      and dec: "basis_decoder dec h steps k" by blast
  have shape: "run_decoder po h steps k [s, h] [n, h] actor_idcs tgt_feat [t, 20]
      = Inr (map (\<lambda>a. [1, k]) actor_idcs,
             map (\<lambda>a. [length a, k, steps, 5]) actor_idcs,
             map (\<lambda>a. ([length a, k, steps, 2], [length a, k, steps, 3],
                    Some [k, length a, 8, 5])) actor_idcs)"
    using SceneDecoder_forward_shape [OF dec assms(4,2,5-8)]
    by (simp add: run_decoder_def init)
  from trajectory_rows [OF dec assms(9-12)] show ?thesis
    using shape by (simp add: run_basis_val_def run_trajectories_val_def init)
qed

theorem trajectories_have_five_channels_witness:
  "run_decoder ''monomial'' 8 4 2 [1, 8] [2, 8] [[0, 1]] [8] [1, 20]
      = Inr ([[1, 2]], [[2, 2, 4, 5]], [([2, 2, 4, 2], [2, 2, 4, 3], Some [2, 2, 8, 5])]) \<and>
   (\<exists>reg vel cov cov_vel traj.
       run_basis_val ''monomial'' 8 4 2
         [[replicate 8 [1, 2, 3, 4, 5], replicate 8 [0, 0, 0, 0, 0]],
          [replicate 8 [1, 1, 1, 1, 1], replicate 8 [2, 2, 2, 2, 2]]]
         = Inr (reg, vel, cov, cov_vel) \<and>
       run_trajectories_val ''monomial'' 8 4 2
         [[replicate 8 [1, 2, 3, 4, 5], replicate 8 [0, 0, 0, 0, 0]],
          [replicate 8 [1, 1, 1, 1, 1], replicate 8 [2, 2, 2, 2, 2]]] = Inr traj \<and>
       traj ! 1 ! 0 ! 3 = reg ! 1 ! 0 ! 3 @ map exp (cov ! 1 ! 0 ! 3) \<and>
       length (reg ! 1 ! 0 ! 3) = 2 \<and> length (cov ! 1 ! 0 ! 3) = 3)"
proof -
  let ?p = "[[replicate 8 [1, 2, 3, 4, 5], replicate 8 [0, 0, 0, 0, 0]],
          [replicate 8 [1, 1, 1, 1, 1], replicate 8 [2, 2, 2, 2, 2 :: real]]]"
  have sh: "has_shape4 2 2 8 5 ?p" by code_simp
  from trajectories_have_five_channels
    [of "''monomial''" 8 2 "[[0, 1]]" 1 1 2 "[8]" 2 ?p 0 1 3 4, OF _ _ _ _ _ _ _ _ sh]
  show ?thesis by simp
qed

text \<open>
  Claim C1 as stated fails: a \<^verbatim>\<open>bezier\<close> decoder with \<^verbatim>\<open>hidden_size = 8\<close>,
  \<^verbatim>\<open>future_steps = 4\<close> and \<^verbatim>\<open>num_modes = 2\<close>, run on one scene of two actors, returns
  trajectories of shape \<^verbatim>\<open>(2, 2, 4, 5)\<close>: five channels per timestep, not four.
\<close>

theorem four_channels_counterexample:
  "run_decoder ''bezier'' 8 4 2 [1, 8] [2, 8] [[0, 1]] [1, 8] [1, 20]
      = Inr ([[1, 2]], [[2, 2, 4, 5]], [([2, 2, 4, 2], [2, 2, 4, 3], Some [2, 2, 8, 5])])"
  by code_simp


section \<open>ScenePredNet: the end-to-end example\<close>

text \<open>
  Claim C2, at the input the code gets wrong. The claim: the model of the end-to-end
  example (\<^verbatim>\<open>hidden_size = 8\<close>, \<^verbatim>\<open>n_fpn_scale = 1\<close>, \<^verbatim>\<open>num_modes = 2\<close>,
  \<^verbatim>\<open>future_steps = 4\<close>, \<^verbatim>\<open>param_out = 'none'\<close>), fed one scene with 2 actors (\<^verbatim>\<open>T = 5\<close>,
  \<^verbatim>\<open>C = 3\<close>), 1 lane segment, a scene RPE over the 3 tokens, one target node and a
  \<^verbatim>\<open>TGT_RPE\<close> of shape \<^verbatim>\<open>(1, 11)\<close>, returns probabilities and trajectories. The code
  raises a shape error instead: the lane encoder returns shape \<^verbatim>\<open>(8,)\<close> for the single
  lane, and \<^verbatim>\<open>FusionNet.forward\<close> cannot concatenate the actors with it.
\<close>

theorem end_to_end_example_fails:
  "run_model
     \<lparr>in_actor = 3, in_lane = 10, cfg_n_fpn_scale = 1, d_actor = 8, d_lane = 8, d_embed = 8,
      d_rpe = 8, d_rpe_in = 5, cfg_update_edge = True, n_scene_head = 2, n_scene_layer = 2,
      cfg_param_out = ''none'', g_pred_len = 4, g_num_modes = 2\<rparr>
     \<lparr>ACTORS = [2, 3, 5], ACTOR_IDCS = [[0, 1]], LANES = [1, 10, 10], LANE_IDCS = [[0]],
      RPE = [[''scene'' \<mapsto> [5, 3, 3]]], TGT_NODES = [1, 10, 10], TGT_RPE = [1, 11]\<rparr>
   = Inl ShapeError"
  by code_simp

text \<open>The same example with two lane segments still raises: a shape error in the RPE
  projection for 11 features, and \<^verbatim>\<open>AttributeError\<close> in the \<^verbatim>\<open>none\<close> branch for 20.\<close>

lemma end_to_end_two_lanes_rpe11:
  "run_model
     \<lparr>in_actor = 3, in_lane = 10, cfg_n_fpn_scale = 1, d_actor = 8, d_lane = 8, d_embed = 8,
      d_rpe = 8, d_rpe_in = 5, cfg_update_edge = True, n_scene_head = 2, n_scene_layer = 2,
      cfg_param_out = ''none'', g_pred_len = 4, g_num_modes = 2\<rparr>
     \<lparr>ACTORS = [2, 3, 5], ACTOR_IDCS = [[0, 1]], LANES = [2, 10, 10], LANE_IDCS = [[0, 1]],
      RPE = [[''scene'' \<mapsto> [5, 4, 4]]], TGT_NODES = [1, 10, 10], TGT_RPE = [1, 11]\<rparr>
   = Inl ShapeError"
  by code_simp

lemma end_to_end_two_lanes_none:
  "run_model
     \<lparr>in_actor = 3, in_lane = 10, cfg_n_fpn_scale = 1, d_actor = 8, d_lane = 8, d_embed = 8,
      d_rpe = 8, d_rpe_in = 5, cfg_update_edge = True, n_scene_head = 2, n_scene_layer = 2,
      cfg_param_out = ''none'', g_pred_len = 4, g_num_modes = 2\<rparr>
     \<lparr>ACTORS = [2, 3, 5], ACTOR_IDCS = [[0, 1]], LANES = [2, 10, 10], LANE_IDCS = [[0, 1]],
      RPE = [[''scene'' \<mapsto> [5, 4, 4]]], TGT_NODES = [1, 10, 10], TGT_RPE = [1, 20]\<rparr>
   = Inl AttributeError"
  by code_simp

text \<open>With \<^verbatim>\<open>param_out = 'bezier'\<close>, two lane segments and 20 RPE features the model
  returns: probabilities of shape \<^verbatim>\<open>(1, 2)\<close> and trajectories of shape
  \<^verbatim>\<open>(2, 2, 4, 5)\<close>.\<close>

lemma end_to_end_two_lanes_bezier:
  "run_model
     \<lparr>in_actor = 3, in_lane = 10, cfg_n_fpn_scale = 1, d_actor = 8, d_lane = 8, d_embed = 8,
      d_rpe = 8, d_rpe_in = 5, cfg_update_edge = True, n_scene_head = 2, n_scene_layer = 2,
      cfg_param_out = ''bezier'', g_pred_len = 4, g_num_modes = 2\<rparr>
     \<lparr>ACTORS = [2, 3, 5], ACTOR_IDCS = [[0, 1]], LANES = [2, 10, 10], LANE_IDCS = [[0, 1]],
      RPE = [[''scene'' \<mapsto> [5, 4, 4]]], TGT_NODES = [1, 10, 10], TGT_RPE = [1, 20]\<rparr>
   = Inr ([[1, 2]], [[2, 2, 4, 5]], [([2, 2, 4, 2], [2, 2, 4, 3], Some [2, 2, 8, 5])])"
  by code_simp

section \<open>Batches and single scenes\<close>

text \<open>
  Claim C7, at an input the code gets wrong. The claim: for every batch, each scene's
  slice of the output equals the output of the model on that scene alone. A batch of two
  scenes (3 and 2 actors, one lane segment each) is processed, but the model run on the
  second scene alone raises a shape error: the lane encoder returns shape \<^verbatim>\<open>(8,)\<close> for
  its single lane segment.
\<close>

theorem single_lane_scene_alone_fails:
  "run_model
     \<lparr>in_actor = 3, in_lane = 10, cfg_n_fpn_scale = 1, d_actor = 8, d_lane = 8, d_embed = 8,
      d_rpe = 8, d_rpe_in = 5, cfg_update_edge = True, n_scene_head = 2, n_scene_layer = 2,
      cfg_param_out = ''bezier'', g_pred_len = 4, g_num_modes = 2\<rparr>
     \<lparr>ACTORS = [5, 3, 5], ACTOR_IDCS = [[0, 1, 2], [3, 4]], LANES = [2, 10, 10],
      LANE_IDCS = [[0], [1]], RPE = [[''scene'' \<mapsto> [5, 4, 4]], [''scene'' \<mapsto> [5, 3, 3]]],
      TGT_NODES = [2, 10, 10], TGT_RPE = [2, 20]\<rparr>
   = Inr ([[1, 2], [1, 2]], [[3, 2, 4, 5], [2, 2, 4, 5]],
          [([3, 2, 4, 2], [3, 2, 4, 3], Some [2, 3, 8, 5]),
           ([2, 2, 4, 2], [2, 2, 4, 3], Some [2, 2, 8, 5])]) \<and>
   run_model
     \<lparr>in_actor = 3, in_lane = 10, cfg_n_fpn_scale = 1, d_actor = 8, d_lane = 8, d_embed = 8,
      d_rpe = 8, d_rpe_in = 5, cfg_update_edge = True, n_scene_head = 2, n_scene_layer = 2,
      cfg_param_out = ''bezier'', g_pred_len = 4, g_num_modes = 2\<rparr>
     \<lparr>ACTORS = [2, 3, 5], ACTOR_IDCS = [[0, 1]], LANES = [1, 10, 10], LANE_IDCS = [[0]],
      RPE = [[''scene'' \<mapsto> [5, 3, 3]]], TGT_NODES = [1, 10, 10], TGT_RPE = [1, 20]\<rparr>
   = Inl ShapeError"
  by code_simp

end
